theory Spec2Isabelle
  imports Complex_Main "HOL-Library.Stream" "HOL-Library.Multiset"
begin

section \<open>JavaScript values and library functions used by the services\<close>

text \<open>
  Strings are \<^typ>\<open>string\<close>, one \<^typ>\<open>char\<close> per code unit: the ASCII characters, the
  no-break space at \<open>0xA0\<close> and, for the en dash (U+2013) that the date-range pattern
  names, the character \<open>endash\<close>. Other code units, and the case mapping of letters
  outside A to Z, are outside the model. An optional field (\<open>undefined\<close> when absent) is
  an \<^typ>\<open>'a option\<close>. Numbers are \<^typ>\<open>real\<close>, or \<^typ>\<open>int\<close> and \<^typ>\<open>nat\<close> where the source counts; the
  rounding of IEEE doubles is not part of the model.
\<close>

definition endash :: char where
  "endash = CHR 0x96"

text \<open>Truthiness of an optional string: \<open>undefined\<close> and \<open>''\<close> are falsy.\<close>

definition truthy :: "string option \<Rightarrow> bool" where
  "truthy v = (case v of None \<Rightarrow> False | Some s \<Rightarrow> s \<noteq> [])"

text \<open>\<open>v || d\<close> for an optional string \<open>v\<close> and a string \<open>d\<close>.\<close>

definition or_else :: "string option \<Rightarrow> string \<Rightarrow> string" where
  "or_else v d = (case v of None \<Rightarrow> d | Some s \<Rightarrow> if s = [] then d else s)"

text \<open>An optional string inside a template literal: \<open>`${v}`\<close>.\<close>

definition show_opt :: "string option \<Rightarrow> string" where
  "show_opt v = (case v of None \<Rightarrow> ''undefined'' | Some s \<Rightarrow> s)"

definition toLowerCase_char :: "char \<Rightarrow> char" where
  "toLowerCase_char c =
     (case map_of (zip ''ABCDEFGHIJKLMNOPQRSTUVWXYZ'' ''abcdefghijklmnopqrstuvwxyz'') c of
        None \<Rightarrow> c
      | Some l \<Rightarrow> l)"

text \<open>\<open>String.prototype.toLowerCase\<close> on the letters A to Z; other characters are kept.\<close>

definition toLowerCase :: "string \<Rightarrow> string" where
  "toLowerCase s = map toLowerCase_char s"

fun startsWith :: "string \<Rightarrow> string \<Rightarrow> bool" where
  "startsWith s [] = True"
| "startsWith [] (p # ps) = False"
| "startsWith (c # cs) (p # ps) = (if c = p then startsWith cs ps else False)"

text \<open>\<open>s.includes(pat)\<close> on strings: \<open>pat\<close> occurs in \<open>s\<close> as a contiguous substring.\<close>

fun str_includes :: "string \<Rightarrow> string \<Rightarrow> bool" where
  "str_includes [] pat = (pat = [])"
| "str_includes (c # cs) pat = (startsWith (c # cs) pat \<or> str_includes cs pat)"

text \<open>\<open>v?.toLowerCase().includes(pat)\<close>: \<open>undefined\<close> (falsy) when \<open>v\<close> is absent.\<close>

definition lower_includes :: "string option \<Rightarrow> string \<Rightarrow> bool" where
  "lower_includes v pat = (case v of None \<Rightarrow> False | Some s \<Rightarrow> str_includes (toLowerCase s) pat)"

text \<open>\<open>keywords.some(keyword => s.toLowerCase().includes(keyword))\<close>.\<close>

definition matches_any :: "string list \<Rightarrow> string \<Rightarrow> bool" where
  "matches_any keywords s = list_ex (\<lambda>keyword. str_includes (toLowerCase s) keyword) keywords"

text \<open>\<open>xs.join(sep)\<close>.\<close>

fun join :: "string \<Rightarrow> string list \<Rightarrow> string" where
  "join sep [] = []"
| "join sep [x] = x"
| "join sep (x # y # ys) = x @ sep @ join sep (y # ys)"

text \<open>
  \<open>xs.slice(0, n)\<close> for an integer \<open>n\<close>: a negative \<open>n\<close> counts from the end of the array.
\<close>

definition slice0 :: "'a list \<Rightarrow> int \<Rightarrow> 'a list" where
  "slice0 xs n = (if n < 0 then take (nat (int (length xs) + n)) xs else take (nat n) xs)"

text \<open>The remainder operator \<open>a % b\<close> on integers, \<open>b > 0\<close>: the sign follows the dividend.\<close>

definition js_rem :: "int \<Rightarrow> int \<Rightarrow> int" where
  "js_rem a b = (if a < 0 then - ((- a) mod b) else a mod b)"

text \<open>\<open>Math.round\<close>: the nearest integer, a tie going up.\<close>

definition Math_round :: "real \<Rightarrow> real" where
  "Math_round x = of_int \<lfloor>x + 1 / 2\<rfloor>"

text \<open>A \<open>Set\<close> keeps its elements in insertion order; \<open>add\<close> of a member changes nothing.\<close>

definition Set_add :: "'a list \<Rightarrow> 'a \<Rightarrow> 'a list" where
  "Set_add xs x = (if x \<in> set xs then xs else xs @ [x])"

text \<open>\<open>xs.filter(Boolean)\<close> on optional strings.\<close>

definition compact :: "string option list \<Rightarrow> string list" where
  "compact xs =
     concat (map (\<lambda>v. case v of None \<Rightarrow> [] | Some s \<Rightarrow> if s = [] then [] else [s]) xs)"

text \<open>\<open>a || b\<close> on optional strings.\<close>

definition or_opt :: "string option \<Rightarrow> string option \<Rightarrow> string option" where
  "or_opt a b = (if truthy a then a else b)"

definition add_when :: "bool \<Rightarrow> 'a \<Rightarrow> 'a list \<Rightarrow> 'a list" where
  "add_when b x xs = (if b then Set_add xs x else xs)"

text \<open>\<open>xs.map((x, index) => f x index)\<close>, the index counted from \<open>i\<close>.\<close>

fun map_index :: "('a \<Rightarrow> nat \<Rightarrow> 'b) \<Rightarrow> nat \<Rightarrow> 'a list \<Rightarrow> 'b list" where
  "map_index f i [] = []"
| "map_index f i (x # xs) = f x i # map_index f (Suc i) xs"

text \<open>
  What the services take from their host: the \<open>Date\<close> constructor on a string (milliseconds
  since the epoch, \<open>None\<close> for an invalid date), the clock \<open>new Date()\<close> (read once per call
  of the analyzer) and the conversion of a number to a string in a template literal.
\<close>

record js_env =
  Date_parse :: "string \<Rightarrow> int option"
  Date_now :: int
  Number_toString :: "real \<Rightarrow> string"

subsection \<open>The three patterns of the duration parser\<close>

definition isDigit :: "char \<Rightarrow> bool" where
  "isDigit c = (c \<in> set ''0123456789'')"

text \<open>\<open>\s\<close>: space, tab, line feed, vertical tab, form feed, carriage return, no-break space.\<close>

definition isSpace :: "char \<Rightarrow> bool" where
  "isSpace c = (c \<in> set [CHR '' '', CHR 0x09, CHR 0x0A, CHR 0x0B, CHR 0x0C, CHR 0x0D, CHR 0xA0])"

definition isWord :: "char \<Rightarrow> bool" where
  "isWord c =
     (c \<in> set ''abcdefghijklmnopqrstuvwxyzABCDEFGHIJKLMNOPQRSTUVWXYZ0123456789_'')"

definition digitValue :: "char \<Rightarrow> nat" where
  "digitValue c = (case map_of (zip ''0123456789'' [0, 1, 2, 3, 4, 5, 6, 7, 8, 9]) c of
                     None \<Rightarrow> 0 | Some d \<Rightarrow> d)"

text \<open>\<open>parseInt\<close> on a string of decimal digits.\<close>

definition parseInt :: "string \<Rightarrow> nat" where
  "parseInt ds = foldl (\<lambda>n c. 10 * n + digitValue c) 0 ds"

text \<open>The head of \<open>s\<close> is \<open>pat\<close> (given in lower case), letter case ignored.\<close>

fun startsWith_ci :: "string \<Rightarrow> string \<Rightarrow> bool" where
  "startsWith_ci s [] = True"
| "startsWith_ci [] (p # ps) = False"
| "startsWith_ci (c # cs) (p # ps) =
     (if toLowerCase_char c = p then startsWith_ci cs ps else False)"

text \<open>
  \<open>s.match(/(\d+)\s*(?:u1|u2)s?/i)\<close>, the first capture group: the leftmost run of digits
  that is followed, after optional white space, by one of the unit words.
\<close>

fun match_count :: "string list \<Rightarrow> string \<Rightarrow> string option" where
  "match_count units [] = None"
| "match_count units (c # cs) =
     (if isDigit c \<and>
         list_ex (startsWith_ci (dropWhile isSpace (dropWhile isDigit cs))) units
      then Some (c # takeWhile isDigit cs)
      else match_count units cs)"

definition yearMatch :: "string \<Rightarrow> string option" where
  "yearMatch duration = match_count [''yr'', ''year''] duration"

definition monthMatch :: "string \<Rightarrow> string option" where
  "monthMatch duration = match_count [''mo'', ''month''] duration"

text \<open>\<open>\w{3}\s+\d{4}\<close> at the head of \<open>s\<close>: the matched text and what follows it.\<close>

definition month_year :: "string \<Rightarrow> (string \<times> string) option" where
  "month_year s =
     (let w = take 3 s; sp = takeWhile isSpace (drop 3 s);
          r = dropWhile isSpace (drop 3 s); d = take 4 r
      in if length w = 3 \<and> list_all isWord w \<and> sp \<noteq> [] \<and> length d = 4 \<and> list_all isDigit d
         then Some (w @ sp @ d, drop 4 r) else None)"

text \<open>
  \<open>/(\w{3}\s+\d{4})\s*[-U+2013]\s*(\w{3}\s+\d{4}|Present)/i\<close> anchored at the head of
  \<open>s\<close>: the two capture groups.
\<close>

definition range_at :: "string \<Rightarrow> (string \<times> string) option" where
  "range_at s =
     (case month_year s of
        None \<Rightarrow> None
      | Some (g1, r) \<Rightarrow>
          (case dropWhile isSpace r of
             [] \<Rightarrow> None
           | c # r' \<Rightarrow>
               if c = CHR ''-'' \<or> c = endash then
                 (let t = dropWhile isSpace r' in
                  case month_year t of
                    Some (g2, u) \<Rightarrow> Some (g1, g2)
                  | None \<Rightarrow> if startsWith_ci t ''present'' then Some (g1, take 7 t) else None)
               else None))"

text \<open>The leftmost match of the date-range pattern in \<open>s\<close>.\<close>

fun dateRangeMatch :: "string \<Rightarrow> (string \<times> string) option" where
  "dateRangeMatch [] = None"
| "dateRangeMatch (c # cs) =
     (case range_at (c # cs) of Some m \<Rightarrow> Some m | None \<Rightarrow> dateRangeMatch cs)"

section \<open>The question bank\<close>

record ConversationStarter =
  cs_id :: int
  category :: string
  subcategory :: string
  question :: string
  tags :: "string list"

section \<open>Profile analysis (\<open>analyzeProfileForRAG\<close>)\<close>

subsection \<open>The raw profile\<close>

record Experience =
  exp_title :: "string option"
  exp_company :: "string option"
  exp_duration :: "string option"
  exp_isCurrent :: "bool option"
  exp_description :: "string option"

record Education =
  edu_school :: "string option"
  edu_degree :: "string option"

record Volunteer =
  vol_cause :: "string option"
  vol_organization :: "string option"

record RawProfile =
  rp_name :: "string option"
  rp_currentRole :: "string option"
  rp_title :: "string option"
  rp_currentCompany :: "string option"
  rp_location :: "string option"
  rp_industry :: "string option"
  rp_yearsOfExperience :: "real option"
  rp_experience :: "Experience list option"
  rp_skills :: "string list option"
  rp_certifications :: "string list option"
  rp_education :: "Education list option"
  rp_volunteerExperience :: "Volunteer list option"
  rp_languages :: "string list option"

subsection \<open>The derived context\<close>

datatype career_level = Entry | Mid | Senior | Executive

datatype level = High | Medium | Low

datatype transition_type = Promotion | Career_change | Industry_switch | Company_change

datatype opportunity_type =
  Shared_experience | Industry_connection | Skill_synergy | Educational_background | Career_advice

record PersonalContext =
  name :: string
  currentRole :: string
  currentCompany :: string
  location :: "string option"
  industry :: "string option"
  yearsOfExperience :: real
  careerLevel :: career_level

record CareerStep =
  step_title :: string
  step_company :: string
  step_duration :: "string option"
  isCurrent :: bool
  significance :: level

record CareerTransition =
  tr_from :: string
  tr_to :: string
  tr_type :: transition_type
  tr_significance :: string

record ProfessionalJourney =
  careerProgression :: "CareerStep list"
  keyTransitions :: "CareerTransition list"
  industryExperience :: "string list"
  companyTypes :: "string list"
  roleTypes :: "string list"

record ExpertiseContext =
  coreSkills :: "string list"
  technicalSkills :: "string list"
  industryKnowledge :: "string list"
  certifications :: "string list"
  specializations :: "string list"

record InterestContext =
  professionalInterests :: "string list"
  volunteerCauses :: "string list"
  educationalBackground :: "string list"
  languages :: "string list"
  likelyTopics :: "string list"

record ConversationTopic =
  ct_topic :: string
  ct_relevance :: level
  ct_context :: string
  ct_suggestedApproach :: string

record NetworkingOpportunity =
  no_type :: opportunity_type
  no_description :: string
  no_confidence :: level

record ProfileContext =
  personalInfo :: PersonalContext
  professionalJourney :: ProfessionalJourney
  expertise :: ExpertiseContext
  interests :: InterestContext
  conversationTopics :: "ConversationTopic list"
  networkingOpportunities :: "NetworkingOpportunity list"

subsection \<open>Years of experience and career level\<close>

text \<open>
  The months one duration string contributes: year and month tokens first, the date range
  only when those give zero. \<open>1000 * 60 * 60 * 24 * 30.44 = 2630016000\<close>.
\<close>

definition duration_months :: "js_env \<Rightarrow> string \<Rightarrow> nat" where
  "duration_months env duration =
     (let months =
            (case yearMatch duration of None \<Rightarrow> 0 | Some y \<Rightarrow> parseInt y * 12) +
            (case monthMatch duration of None \<Rightarrow> 0 | Some m \<Rightarrow> parseInt m)
      in if months = 0 then
           (case dateRangeMatch duration of
              None \<Rightarrow> 0
            | Some (g1, g2) \<Rightarrow>
                (case (Date_parse env g1,
                       if toLowerCase g2 = ''present'' then Some (Date_now env)
                       else Date_parse env g2) of
                   (Some startDate, Some endDate) \<Rightarrow>
                     nat \<lceil>real_of_int \<bar>endDate - startDate\<bar> / 2630016000\<rceil>
                 | _ \<Rightarrow> 0))
         else months)"

text \<open>The body of the \<open>forEach\<close>: an absent or empty duration adds nothing.\<close>

definition experience_months :: "js_env \<Rightarrow> Experience \<Rightarrow> nat" where
  "experience_months env xp =
     (case exp_duration xp of
        None \<Rightarrow> 0
      | Some d \<Rightarrow> if d = [] then 0 else duration_months env d)"

definition calculateExperienceYears :: "js_env \<Rightarrow> Experience list option \<Rightarrow> real" where
  "calculateExperienceYears env experience =
     (case experience of
        None \<Rightarrow> 0
      | Some exps \<Rightarrow>
          if exps = [] then 0
          else
            (let totalMonths = sum_list (map (experience_months env) exps);
                 totalYears = Math_round ((real totalMonths / 12) * 10) / 10
             in max totalYears 0))"

definition determineCareerLevel :: "real \<Rightarrow> Experience list option \<Rightarrow> career_level" where
  "determineCareerLevel years experience =
     (if years \<ge> 15 then Executive
      else if years \<ge> 8 then Senior
      else if years \<ge> 3 then Mid
      else Entry)"

text \<open>
  \<open>profile.yearsOfExperience || calculateExperienceYears(profile.experience)\<close>: a supplied
  number other than 0 is taken as it is.
\<close>

definition extractPersonalContext :: "js_env \<Rightarrow> RawProfile \<Rightarrow> PersonalContext" where
  "extractPersonalContext env profile =
     (let years =
            (case rp_yearsOfExperience profile of
               None \<Rightarrow> calculateExperienceYears env (rp_experience profile)
             | Some y \<Rightarrow>
                 if y = 0 then calculateExperienceYears env (rp_experience profile) else y)
      in \<lparr> name = or_else (rp_name profile) ''Professional'',
           currentRole =
             or_else (rp_currentRole profile) (or_else (rp_title profile) ''Professional''),
           currentCompany = or_else (rp_currentCompany profile) ''Current Company'',
           location = rp_location profile,
           industry = rp_industry profile,
           yearsOfExperience = years,
           careerLevel = determineCareerLevel years (rp_experience profile) \<rparr>)"

subsection \<open>Professional journey\<close>

definition determineRoleSignificance :: "Experience \<Rightarrow> nat \<Rightarrow> level" where
  "determineRoleSignificance xp index =
     (if index = 0 then High
      else if lower_includes (exp_title xp) ''director'' \<or>
              lower_includes (exp_title xp) ''vp'' \<or>
              lower_includes (exp_title xp) ''head'' then High
      else if index \<le> 2 then Medium
      else Low)"

definition careerStep :: "Experience \<Rightarrow> nat \<Rightarrow> CareerStep" where
  "careerStep xp index =
     \<lparr> step_title = or_else (exp_title xp) ''Position'',
       step_company = or_else (exp_company xp) ''Company'',
       step_duration = exp_duration xp,
       isCurrent = (exp_isCurrent xp = Some True \<or> index = 0),
       significance = determineRoleSignificance xp index \<rparr>"

definition determineTransitionType :: "Experience \<Rightarrow> Experience \<Rightarrow> transition_type" where
  "determineTransitionType from_xp to_xp =
     (if exp_company from_xp = exp_company to_xp then Promotion
      else if lower_includes (exp_title from_xp) ''engineer'' \<and>
              lower_includes (exp_title to_xp) ''manager'' then Career_change
      else Company_change)"

definition careerTransition :: "Experience \<Rightarrow> Experience \<Rightarrow> CareerTransition" where
  "careerTransition current previous =
     \<lparr> tr_from = show_opt (exp_title previous) @ '' at '' @ show_opt (exp_company previous),
       tr_to = show_opt (exp_title current) @ '' at '' @ show_opt (exp_company current),
       tr_type = determineTransitionType previous current,
       tr_significance =
         ''Transitioned from '' @ show_opt (exp_title previous) @ '' to '' @
         show_opt (exp_title current) \<rparr>"

fun identifyCareerTransitions :: "Experience list \<Rightarrow> CareerTransition list" where
  "identifyCareerTransitions (current # previous # rest) =
     careerTransition current previous # identifyCareerTransitions (previous # rest)"
| "identifyCareerTransitions [current] = []"
| "identifyCareerTransitions [] = []"

definition extractIndustries :: "Experience list \<Rightarrow> string list" where
  "extractIndustries experience =
     foldl (\<lambda>industries xp.
        add_when (lower_includes (exp_title xp) ''data'') ''Data Science''
       (add_when (lower_includes (exp_title xp) ''software'') ''Software Development''
       (add_when (lower_includes (exp_company xp) ''bank'') ''Finance''
       (add_when (lower_includes (exp_company xp) ''tech'') ''Technology'' industries))))
       [] experience"

definition categorizeCompanies :: "Experience list \<Rightarrow> string list" where
  "categorizeCompanies experience =
     foldl (\<lambda>types xp.
        add_when (lower_includes (exp_company xp) ''corp'' \<or>
                  lower_includes (exp_company xp) ''inc'') ''Corporation''
       (add_when (lower_includes (exp_company xp) ''startup'') ''Startup'' types))
       [] experience"

definition categorizeRoles :: "Experience list \<Rightarrow> string list" where
  "categorizeRoles experience =
     foldl (\<lambda>types xp.
        add_when (lower_includes (exp_title xp) ''director'') ''Leadership''
       (add_when (lower_includes (exp_title xp) ''analyst'') ''Analysis''
       (add_when (lower_includes (exp_title xp) ''manager'') ''Management''
       (add_when (lower_includes (exp_title xp) ''engineer'') ''Engineering'' types))))
       [] experience"

definition analyzeProfessionalJourney :: "RawProfile \<Rightarrow> ProfessionalJourney" where
  "analyzeProfessionalJourney profile =
     (let experience = (case rp_experience profile of None \<Rightarrow> [] | Some es \<Rightarrow> es)
      in \<lparr> careerProgression = map_index careerStep 0 experience,
           keyTransitions = identifyCareerTransitions experience,
           industryExperience = extractIndustries experience,
           companyTypes = categorizeCompanies experience,
           roleTypes = categorizeRoles experience \<rparr>)"

subsection \<open>Expertise\<close>

definition identifyCoreSkills :: "string list \<Rightarrow> string list" where
  "identifyCoreSkills skills =
     filter (matches_any
       [''management'', ''leadership'', ''strategy'', ''communication'', ''project'', ''team''])
       skills"

definition identifyTechnicalSkills :: "string list \<Rightarrow> string list" where
  "identifyTechnicalSkills skills =
     filter (matches_any
       [''python'', ''javascript'', ''react'', ''sql'', ''aws'', ''docker'', ''kubernetes'',
        ''machine learning'', ''ai''])
       skills"

definition extractIndustryKnowledge :: "RawProfile \<Rightarrow> string list" where
  "extractIndustryKnowledge profile =
     foldl (\<lambda>knowledge xp.
        if truthy (exp_description xp) then
          add_when (lower_includes (exp_description xp) ''e-commerce'') ''E-commerce''
         (add_when (lower_includes (exp_description xp) ''healthcare'') ''Healthcare''
         (add_when (lower_includes (exp_description xp) ''fintech'') ''FinTech'' knowledge))
        else knowledge)
       (if truthy (rp_industry profile) then [the (rp_industry profile)] else [])
       (case rp_experience profile of None \<Rightarrow> [] | Some es \<Rightarrow> es)"

definition identifySpecializations :: "RawProfile \<Rightarrow> string list" where
  "identifySpecializations profile =
     foldl (\<lambda>specializations cert.
        add_when (str_includes (toLowerCase cert) ''scrum'') ''Agile Methodology''
       (add_when (str_includes (toLowerCase cert) ''pmp'') ''Project Management''
       (add_when (str_includes (toLowerCase cert) ''aws'') ''Cloud Computing'' specializations)))
       []
       (case rp_certifications profile of None \<Rightarrow> [] | Some cs \<Rightarrow> cs)"

definition extractExpertiseContext :: "RawProfile \<Rightarrow> ExpertiseContext" where
  "extractExpertiseContext profile =
     (let skills = (case rp_skills profile of None \<Rightarrow> [] | Some ss \<Rightarrow> ss);
          certs = (case rp_certifications profile of None \<Rightarrow> [] | Some cs \<Rightarrow> cs)
      in \<lparr> coreSkills = identifyCoreSkills skills,
           technicalSkills = identifyTechnicalSkills skills,
           industryKnowledge = extractIndustryKnowledge profile,
           certifications = certs,
           specializations = identifySpecializations profile \<rparr>)"

subsection \<open>Interests\<close>

definition extractProfessionalInterests :: "RawProfile \<Rightarrow> string list" where
  "extractProfessionalInterests profile =
     foldl (\<lambda>interests skill.
        add_when (str_includes (toLowerCase skill) ''digital transformation'')
          ''Digital Transformation''
       (add_when (str_includes (toLowerCase skill) ''sustainability'') ''Sustainability''
       (add_when (str_includes (toLowerCase skill) ''innovation'') ''Innovation'' interests)))
       []
       (case rp_skills profile of None \<Rightarrow> [] | Some ss \<Rightarrow> ss)"

definition generateLikelyTopics :: "RawProfile \<Rightarrow> string list" where
  "generateLikelyTopics profile =
     (let t1 = (if truthy (rp_currentRole profile) then
                  Set_add (Set_add [] (the (rp_currentRole profile) @ '' best practices''))
                    (''Career growth in '' @ the (rp_currentRole profile))
                else []);
          t2 = (if truthy (rp_industry profile) then
                  Set_add (Set_add t1 (the (rp_industry profile) @ '' trends''))
                    (''Future of '' @ the (rp_industry profile))
                else t1)
      in foldl (\<lambda>topics skill. Set_add topics (skill @ '' applications'')) t2
           (take 3 (case rp_skills profile of None \<Rightarrow> [] | Some ss \<Rightarrow> ss)))"

definition extractInterestContext :: "RawProfile \<Rightarrow> InterestContext" where
  "extractInterestContext profile =
     (let education = (case rp_education profile of None \<Rightarrow> [] | Some es \<Rightarrow> es);
          volunteerExperience =
            (case rp_volunteerExperience profile of None \<Rightarrow> [] | Some vs \<Rightarrow> vs)
      in \<lparr> professionalInterests = extractProfessionalInterests profile,
           volunteerCauses =
             compact (map (\<lambda>v. or_opt (vol_cause v) (vol_organization v)) volunteerExperience),
           educationalBackground =
             map (\<lambda>e. show_opt (edu_degree e) @ '' from '' @ show_opt (edu_school e)) education,
           languages = (case rp_languages profile of None \<Rightarrow> [] | Some ls \<Rightarrow> ls),
           likelyTopics = generateLikelyTopics profile \<rparr>)"

subsection \<open>Conversation topics and networking opportunities\<close>

definition relevanceOrder :: "level \<Rightarrow> int" where
  "relevanceOrder r = (case r of High \<Rightarrow> 3 | Medium \<Rightarrow> 2 | Low \<Rightarrow> 1)"

definition transitionTopic :: "CareerTransition \<Rightarrow> ConversationTopic" where
  "transitionTopic transition =
     \<lparr> ct_topic = ''Career transition: '' @ tr_from transition @ '' to '' @ tr_to transition,
       ct_relevance = Medium,
       ct_context = tr_significance transition,
       ct_suggestedApproach =
         ''Ask about their experience transitioning from '' @ tr_from transition @ '' to '' @
         tr_to transition \<rparr>"

definition generateConversationTopics ::
  "js_env \<Rightarrow> RawProfile \<Rightarrow> PersonalContext \<Rightarrow> ProfessionalJourney \<Rightarrow> ExpertiseContext \<Rightarrow>
   ConversationTopic list" where
  "generateConversationTopics env profile info journey expert =
     (let roleTopics =
            (if currentRole info \<noteq> [] \<and> currentCompany info \<noteq> [] then
               [\<lparr> ct_topic = ''Current role at '' @ currentCompany info,
                  ct_relevance = High,
                  ct_context = name info @ '' is currently working as '' @ currentRole info @
                    '' at '' @ currentCompany info,
                  ct_suggestedApproach =
                    ''Ask about their experience in their current role or recent projects at ''
                    @ currentCompany info \<rparr>]
             else []);
          industryTopics =
            (if truthy (industry info) then
               [\<lparr> ct_topic = the (industry info) @ '' industry insights'',
                  ct_relevance = High,
                  ct_context = ''Professional with '' @
                    (if yearsOfExperience info = 0 then ''several''
                     else Number_toString env (yearsOfExperience info)) @
                    '' years in '' @ the (industry info),
                  ct_suggestedApproach =
                    ''Discuss industry trends, challenges, or opportunities in '' @
                    the (industry info) \<rparr>]
             else []);
          transitionTopics =
            map transitionTopic (filter (\<lambda>t. tr_significance t \<noteq> []) (keyTransitions journey));
          skillTopics =
            (if length (technicalSkills expert) > 0 then
               [\<lparr> ct_topic = ''Technical expertise in '' @
                    join '', '' (take 3 (technicalSkills expert)),
                  ct_relevance = Medium,
                  ct_context = ''Skilled in '' @ join '', '' (technicalSkills expert),
                  ct_suggestedApproach =
                    ''Discuss technical challenges, tools, or best practices in their area of expertise'' \<rparr>]
             else []);
          educationTopics =
            (case (case rp_education profile of None \<Rightarrow> [] | Some es \<Rightarrow> es) of
               [] \<Rightarrow> []
             | primaryEducation # others \<Rightarrow>
                 [\<lparr> ct_topic = ''Educational background at '' @
                      show_opt (edu_school primaryEducation),
                    ct_relevance = Low,
                    ct_context = ''Studied '' @ or_else (edu_degree primaryEducation) ''at'' @
                      '' '' @ show_opt (edu_school primaryEducation),
                    ct_suggestedApproach =
                      ''Mention shared educational experiences or ask about their time at '' @
                      show_opt (edu_school primaryEducation) \<rparr>])
      in sort_key (\<lambda>t. - relevanceOrder (ct_relevance t))
           (roleTopics @ industryTopics @ transitionTopics @ skillTopics @ educationTopics))"

definition identifyNetworkingOpportunities ::
  "js_env \<Rightarrow> RawProfile \<Rightarrow> PersonalContext \<Rightarrow> ProfessionalJourney \<Rightarrow> ExpertiseContext \<Rightarrow>
   NetworkingOpportunity list" where
  "identifyNetworkingOpportunities env profile info journey expert =
     (if truthy (industry info) then
        [\<lparr> no_type = Industry_connection,
           no_description = ''Connect over shared '' @ the (industry info) @
             '' industry experience'',
           no_confidence = High \<rparr>]
      else []) @
     (if length (coreSkills expert) > 0 then
        [\<lparr> no_type = Skill_synergy,
           no_description = ''Potential collaboration in '' @
             join '' and '' (take 2 (coreSkills expert)),
           no_confidence = Medium \<rparr>]
      else []) @
     (if careerLevel info = Senior \<or> careerLevel info = Executive then
        [\<lparr> no_type = Career_advice,
           no_description = ''Seek insights from their '' @
             Number_toString env (yearsOfExperience info) @ ''+ years of experience'',
           no_confidence = High \<rparr>]
      else []) @
     (if length (case rp_education profile of None \<Rightarrow> [] | Some es \<Rightarrow> es) > 0 then
        [\<lparr> no_type = Educational_background,
           no_description = ''Connect over shared educational experiences or alma mater'',
           no_confidence = Low \<rparr>]
      else [])"

subsection \<open>The analyzer\<close>

definition analyzeProfileForRAG :: "js_env \<Rightarrow> RawProfile \<Rightarrow> ProfileContext" where
  "analyzeProfileForRAG env profile =
     (let info = extractPersonalContext env profile;
          journey = analyzeProfessionalJourney profile;
          expert = extractExpertiseContext profile
      in \<lparr> personalInfo = info,
           professionalJourney = journey,
           expertise = expert,
           interests = extractInterestContext profile,
           conversationTopics = generateConversationTopics env profile info journey expert,
           networkingOpportunities =
             identifyNetworkingOpportunities env profile info journey expert \<rparr>)"

section \<open>Conversation service (\<open>ConversationService\<close>)\<close>

record ProfileData =
  pd_name :: "string option"
  pd_title :: "string option"
  pd_company :: "string option"
  pd_industry :: "string option"
  pd_skills :: "string list option"
  pd_education :: "string list option"
  pd_experience :: "Experience list option"
  pd_location :: "string option"

record ConversationContext =
  profileData :: ProfileData
  previousQuestionIds :: "int list option"
  sessionId :: "string option"

record PersonalizedQuestion =
  originalQuestion :: string
  personalizedQuestion :: string
  pq_category :: string
  pq_subcategory :: string
  relevanceScore :: real

text \<open>
  The mutable state of the service: the static map \<open>sessionQuestions\<close> and the generator
  behind \<open>Math.random\<close>, given as the stream of the numbers its successive calls return.
\<close>

record service_state =
  sessionQuestions :: "string \<rightharpoonup> int list"
  random :: "real stream"

subsection \<open>Relevance score\<close>

definition calculateRelevanceScore ::
  "ConversationStarter \<Rightarrow> ProfileData \<Rightarrow> real stream \<Rightarrow> real \<times> real stream" where
  "calculateRelevanceScore q pd rnd =
     (let score0 = 0;
          score1 =
            (if truthy (pd_title pd) then
               (let a = (if ''leadership'' \<in> set (tags q) \<and> lower_includes (pd_title pd) ''lead''
                         then score0 + 3 else score0);
                    b = (if ''management'' \<in> set (tags q) \<and>
                            lower_includes (pd_title pd) ''manager''
                         then a + 3 else a)
                in if ''technical'' \<in> set (tags q) \<and>
                      (lower_includes (pd_title pd) ''engineer'' \<or>
                       lower_includes (pd_title pd) ''developer'')
                   then b + 3 else b)
             else score0);
          score2 =
            (if truthy (pd_industry pd) then
               (let a = (if ''technology'' \<in> set (tags q) \<and>
                            lower_includes (pd_industry pd) ''tech''
                         then score1 + 2 else score1)
                in if ''finance'' \<in> set (tags q) \<and> lower_includes (pd_industry pd) ''finance''
                   then a + 2 else a)
             else score1);
          score3 =
            (case pd_skills pd of
               None \<Rightarrow> score2
             | Some skills \<Rightarrow>
                 if length skills > 0 then
                   (let hasRelevantSkills =
                          list_ex (matches_any [''python'', ''javascript'', ''management'',
                            ''leadership'', ''data'', ''analysis'']) skills
                    in if hasRelevantSkills then
                         (if ''skills'' \<in> set (tags q) \<or> ''technical'' \<in> set (tags q)
                          then score2 + 2 else score2)
                       else score2)
                 else score2);
          score4 =
            (case pd_experience pd of
               None \<Rightarrow> score3
             | Some experience \<Rightarrow>
                 if length experience > 0 then
                   (let experienceYears = length experience;
                        a = (if experienceYears > 5 \<and> ''senior'' \<in> set (tags q)
                             then score3 + 2 else score3)
                    in if experienceYears < 3 \<and> ''early_career'' \<in> set (tags q)
                       then a + 2 else a)
                 else score3)
      in (score4 + shd rnd * 2, stl rnd))"

text \<open>
  The bonuses as the specification lists them, each the amount it adds when it fires and 0
  otherwise. \<open>early\<close> says for which lengths of the experience array the early-career rule
  fires: the specification's words are \<open>early n = (n < 3)\<close>. A rule about a field applies
  only when the field is present.
\<close>

definition listed_bonuses ::
  "(nat \<Rightarrow> bool) \<Rightarrow> ConversationStarter \<Rightarrow> ProfileData \<Rightarrow> real list" where
  "listed_bonuses early q pd =
     [if lower_includes (pd_title pd) ''lead'' \<and> ''leadership'' \<in> set (tags q) then 3 else 0,
      if lower_includes (pd_title pd) ''manager'' \<and> ''management'' \<in> set (tags q) then 3 else 0,
      if (lower_includes (pd_title pd) ''engineer'' \<or> lower_includes (pd_title pd) ''developer'') \<and>
         ''technical'' \<in> set (tags q) then 3 else 0,
      if lower_includes (pd_industry pd) ''tech'' \<and> ''technology'' \<in> set (tags q) then 2 else 0,
      if lower_includes (pd_industry pd) ''finance'' \<and> ''finance'' \<in> set (tags q) then 2 else 0,
      if (case pd_skills pd of None \<Rightarrow> False
          | Some skills \<Rightarrow> list_ex (matches_any [''python'', ''javascript'', ''management'',
              ''leadership'', ''data'', ''analysis'']) skills) \<and>
         (''skills'' \<in> set (tags q) \<or> ''technical'' \<in> set (tags q)) then 2 else 0,
      if (case pd_experience pd of None \<Rightarrow> False | Some experience \<Rightarrow> length experience > 5) \<and>
         ''senior'' \<in> set (tags q) then 2 else 0,
      if (case pd_experience pd of None \<Rightarrow> False | Some experience \<Rightarrow> early (length experience)) \<and>
         ''early_career'' \<in> set (tags q) then 2 else 0]"

subsection \<open>Ranking\<close>

text \<open>The \<open>map\<close> of \<open>rankQuestionsByRelevance\<close>: one score, and one random number, per question.\<close>

fun score_all ::
  "ConversationStarter list \<Rightarrow> ProfileData \<Rightarrow> real stream \<Rightarrow>
   (ConversationStarter \<times> real) list \<times> real stream" where
  "score_all [] pd rnd = ([], rnd)"
| "score_all (q # qs) pd rnd =
     (let (s, rnd1) = calculateRelevanceScore q pd rnd;
          (rest, rnd2) = score_all qs pd rnd1
      in ((q, s) # rest, rnd2))"

text \<open>
  \<open>sort((a, b) => b.relevanceScore - a.relevanceScore)\<close> is a stable sort into descending
  score: \<^const>\<open>sort_key\<close> on the negated score.
\<close>

definition rankQuestionsByRelevance ::
  "ConversationStarter list \<Rightarrow> ProfileData \<Rightarrow> real stream \<Rightarrow>
   ConversationStarter list \<times> real stream" where
  "rankQuestionsByRelevance questions pd rnd =
     (let (scored, rnd') = score_all questions pd rnd
      in (map fst (sort_key (\<lambda>item. - snd item) scored), rnd'))"

subsection \<open>Personalization\<close>

text \<open>
  \<open>s.replace(/p1|p2|.../gi, rep)\<close> for literal alternatives (given in lower case): every
  match, left to right and without overlap, is replaced. The replacement text is inserted as
  it is: the \<open>$\<close> patterns that \<open>String.prototype.replace\<close> expands inside a replacement
  string are not modelled.
\<close>

fun replace_gi :: "string list \<Rightarrow> string \<Rightarrow> string \<Rightarrow> string" where
  "replace_gi pats rep [] = []"
| "replace_gi pats rep (c # cs) =
     (case find (startsWith_ci (c # cs)) pats of
        Some p \<Rightarrow> rep @ replace_gi pats rep (drop (length p - 1) cs)
      | None \<Rightarrow> c # replace_gi pats rep cs)"

definition isRoleRelevant :: "ConversationStarter \<Rightarrow> string \<Rightarrow> bool" where
  "isRoleRelevant q title =
     matches_any [''work'', ''job'', ''role'', ''career'', ''professional''] (question q)"

definition isSkillRelevant :: "ConversationStarter \<Rightarrow> bool" where
  "isSkillRelevant q =
     (''skills'' \<in> set (tags q) \<or> str_includes (toLowerCase (question q)) ''skill'')"

definition isEducationRelevant :: "ConversationStarter \<Rightarrow> bool" where
  "isEducationRelevant q =
     (''education'' \<in> set (tags q) \<or> str_includes (toLowerCase (question q)) ''background'' \<or>
      str_includes (toLowerCase (question q)) ''learn'')"

definition personalizeQuestion ::
  "ConversationStarter \<Rightarrow> ProfileData \<Rightarrow> real stream \<Rightarrow> PersonalizedQuestion \<times> real stream" where
  "personalizeQuestion q pd rnd =
     (let (text1, rnd1) =
            (if truthy (pd_name pd) then
               (if shd rnd > 1 / 2 then ''Hi '' @ the (pd_name pd) @ ''! '' @ question q
                else question q, stl rnd)
             else (question q, rnd));
          text2 =
            (if truthy (pd_title pd) \<and> truthy (pd_company pd) \<and>
                isRoleRelevant q (the (pd_title pd)) then
               replace_gi [''your work'', ''your job'', ''your role'', ''your career'']
                 (''your work as '' @ the (pd_title pd) @ '' at '' @ the (pd_company pd)) text1
             else text1);
          text3 =
            (case pd_skills pd of
               None \<Rightarrow> text2
             | Some skills \<Rightarrow>
                 if length skills > 0 \<and> isSkillRelevant q then
                   replace_gi [''your skills'']
                     (''your expertise in '' @ join '' and '' (take 2 skills)) text2
                 else text2);
          text4 =
            (case pd_education pd of
               None \<Rightarrow> text3
             | Some [] \<Rightarrow> text3
             | Some (first # others) \<Rightarrow>
                 if isEducationRelevant q then
                   replace_gi [''your background''] (''your background from '' @ first) text3
                 else text3);
          (score, rnd2) = calculateRelevanceScore q pd rnd1
      in (\<lparr> originalQuestion = question q,
            personalizedQuestion = text4,
            pq_category = category q,
            pq_subcategory = subcategory q,
            relevanceScore = score \<rparr>, rnd2))"

text \<open>\<open>selectedQuestions.map(question => this.personalizeQuestion(question, profileData))\<close>.\<close>

fun personalize_all ::
  "ConversationStarter list \<Rightarrow> ProfileData \<Rightarrow> real stream \<Rightarrow>
   PersonalizedQuestion list \<times> real stream" where
  "personalize_all [] pd rnd = ([], rnd)"
| "personalize_all (q # qs) pd rnd =
     (let (x, rnd1) = personalizeQuestion q pd rnd;
          (xs, rnd2) = personalize_all qs pd rnd1
      in (x # xs, rnd2))"

subsection \<open>The catalog module\<close>

text \<open>
  Modelled from the spec: the module \<open>data/conversationStarters\<close> (the catalog
  \<open>conversationStarters\<close> and its helpers \<open>getQuestionsByCategory\<close> and
  \<open>getRandomQuestions\<close>) is not among the sources. The catalog is a parameter of every
  function that reads it. Section 4.3, step 2: "fetch all catalog entries in that category".
\<close>

definition getQuestionsByCategory ::
  "ConversationStarter list \<Rightarrow> string \<Rightarrow> ConversationStarter list" where
  "getQuestionsByCategory catalog c = filter (\<lambda>q. category q = c) catalog"

text \<open>
  Modelled from the spec: the drawing loop of \<open>getRandomQuestions\<close>, which is not among the
  sources. Section 4.3, step 3: "backfill with uniformly random entries drawn from the full
  catalog [...] until count is reached or the catalog is exhausted". One entry is drawn per
  random number \<open>r\<close>, at index \<open>floor (r * n)\<close> of the \<open>n\<close> entries still in the pool, and
  leaves the pool; an index beyond the pool, which no \<open>r\<close> in [0, 1) gives, is read as the
  last one.
\<close>

fun draw ::
  "nat \<Rightarrow> ConversationStarter list \<Rightarrow> real stream \<Rightarrow> ConversationStarter list \<times> real stream" where
  "draw 0 pool rnd = ([], rnd)"
| "draw (Suc n) pool rnd =
     (if pool = [] then ([], rnd)
      else
        (let i = min (nat \<lfloor>shd rnd * real (length pool)\<rfloor>) (length pool - 1);
             (rest, rnd') = draw n (take i pool @ drop (Suc i) pool) (stl rnd)
         in (pool ! i # rest, rnd')))"

text \<open>
  Modelled from the spec: \<open>getRandomQuestions(count, excludeIds)\<close>, which is not among the
  sources. Section 4.3, step 3: the entries are drawn from the full catalog, "excluding both
  the session's used ids and ids already selected in this call".
\<close>

definition getRandomQuestions ::
  "ConversationStarter list \<Rightarrow> int \<Rightarrow> int list \<Rightarrow> real stream \<Rightarrow>
   ConversationStarter list \<times> real stream" where
  "getRandomQuestions catalog cnt excludeIds rnd =
     draw (nat cnt) (filter (\<lambda>q. cs_id q \<notin> set excludeIds) catalog) rnd"

subsection \<open>Diverse selection\<close>

text \<open>The requested count is an integer; \<open>Math.floor(a / b)\<close> is \<^term>\<open>a div b\<close> on integers.\<close>

definition calculateCategoryDistribution :: "int \<Rightarrow> (string \<times> int) list" where
  "calculateCategoryDistribution totalCount =
     (let categories = [''career_background'', ''soft_skills'', ''personality_motivation''];
          baseCount = totalCount div int (length categories);
          remainder = js_rem totalCount (int (length categories))
      in map_index (\<lambda>category index.
           (category, baseCount + (if int index < remainder then 1 else 0))) 0 categories)"

text \<open>The loop over the category distribution, \<open>selectedQuestions\<close> being its accumulator.\<close>

fun select_by_category ::
  "ConversationStarter list \<Rightarrow> ProfileData \<Rightarrow> int list \<Rightarrow> (string \<times> int) list \<Rightarrow>
   ConversationStarter list \<Rightarrow> real stream \<Rightarrow> ConversationStarter list \<times> real stream" where
  "select_by_category catalog pd usedQuestions [] selectedQuestions rnd = (selectedQuestions, rnd)"
| "select_by_category catalog pd usedQuestions ((c, categoryCount) # rest) selectedQuestions rnd =
     (let categoryQuestions = getQuestionsByCategory catalog c;
          availableQuestions = filter (\<lambda>q. cs_id q \<notin> set usedQuestions) categoryQuestions
      in if length availableQuestions > 0 then
           (let (relevantQuestions, rnd') = rankQuestionsByRelevance availableQuestions pd rnd;
                selected = slice0 relevantQuestions categoryCount
            in select_by_category catalog pd usedQuestions rest (selectedQuestions @ selected) rnd')
         else select_by_category catalog pd usedQuestions rest selectedQuestions rnd)"

text \<open>\<open>getDiverseQuestions\<close> up to the update of the session: the questions it selects.\<close>

definition selectedQuestions ::
  "ConversationStarter list \<Rightarrow> ProfileData \<Rightarrow> int list \<Rightarrow> int \<Rightarrow> real stream \<Rightarrow>
   ConversationStarter list \<times> real stream" where
  "selectedQuestions catalog pd usedQuestions cnt rnd =
     (let (selected, rnd1) =
            select_by_category catalog pd usedQuestions (calculateCategoryDistribution cnt) [] rnd
      in if int (length selected) < cnt then
           (let remaining = cnt - int (length selected);
                (randomQuestions, rnd2) =
                  getRandomQuestions catalog remaining (usedQuestions @ map cs_id selected) rnd1
            in (selected @ randomQuestions, rnd2))
         else (selected, rnd1))"

definition getDiverseQuestions ::
  "ConversationStarter list \<Rightarrow> ConversationContext \<Rightarrow> int \<Rightarrow> service_state \<Rightarrow>
   PersonalizedQuestion list \<times> service_state" where
  "getDiverseQuestions catalog context cnt st =
     (let sid = (case sessionId context of None \<Rightarrow> ''default'' | Some s \<Rightarrow> s);
          usedQuestions = (case sessionQuestions st sid of None \<Rightarrow> [] | Some used \<Rightarrow> used);
          (selected, rnd1) =
            selectedQuestions catalog (profileData context) usedQuestions cnt (random st);
          newQuestionIds = map cs_id selected;
          (result, rnd2) = personalize_all selected (profileData context) rnd1
      in (result,
          \<lparr> sessionQuestions = (sessionQuestions st)(sid \<mapsto> usedQuestions @ newQuestionIds),
            random = rnd2 \<rparr>))"

subsection \<open>Targeted selection\<close>

record Criteria =
  cr_category :: "string option"
  cr_tags :: "string list option"
  cr_subcategory :: "string option"

text \<open>
  \<open>getTargetedQuestions\<close> up to the update of the session. \<open>getQuestionsByTags\<close> belongs to
  the catalog module, which is not among the sources, and is the parameter \<open>byTags\<close>.
\<close>

definition targetedQuestions ::
  "ConversationStarter list \<Rightarrow> (string list \<Rightarrow> ConversationStarter list) \<Rightarrow> Criteria \<Rightarrow>
   ProfileData \<Rightarrow> int list \<Rightarrow> int \<Rightarrow> real stream \<Rightarrow> ConversationStarter list \<times> real stream" where
  "targetedQuestions catalog byTags criteria pd usedQuestions cnt rnd =
     (let questions =
            (if truthy (cr_category criteria) then
               getQuestionsByCategory catalog (the (cr_category criteria))
             else
               (case cr_tags criteria of
                  Some ts \<Rightarrow> byTags ts
                | None \<Rightarrow>
                    if truthy (cr_subcategory criteria) then
                      filter (\<lambda>q. subcategory q = the (cr_subcategory criteria)) catalog
                    else []));
          availableQuestions = filter (\<lambda>q. cs_id q \<notin> set usedQuestions) questions;
          (rankedQuestions, rnd') = rankQuestionsByRelevance availableQuestions pd rnd
      in (slice0 rankedQuestions cnt, rnd'))"

definition getTargetedQuestions ::
  "ConversationStarter list \<Rightarrow> (string list \<Rightarrow> ConversationStarter list) \<Rightarrow> Criteria \<Rightarrow>
   ConversationContext \<Rightarrow> int \<Rightarrow> service_state \<Rightarrow> PersonalizedQuestion list \<times> service_state" where
  "getTargetedQuestions catalog byTags criteria context cnt st =
     (let sid = or_else (sessionId context) ''default'';
          usedQuestions = (case sessionQuestions st sid of None \<Rightarrow> [] | Some used \<Rightarrow> used);
          (selected, rnd1) =
            targetedQuestions catalog byTags criteria (profileData context) usedQuestions cnt
              (random st);
          newQuestionIds = map cs_id selected;
          (result, rnd2) = personalize_all selected (profileData context) rnd1
      in (result,
          \<lparr> sessionQuestions = (sessionQuestions st)(sid \<mapsto> usedQuestions @ newQuestionIds),
            random = rnd2 \<rparr>))"

definition clearSession :: "string \<Rightarrow> service_state \<Rightarrow> service_state" where
  "clearSession sid st = st \<lparr> sessionQuestions := (sessionQuestions st)(sid := None) \<rparr>"

section \<open>Intelligent question service (\<open>IntelligentQuestionService\<close>)\<close>

text \<open>
  The fields of the service's profile that decide which questions are returned and how they
  are worded. The remaining fields (skills, experience, career transitions, achievements,
  location, current role, industry experience) only enter the text of the prompt.
\<close>

record EducationDetail =
  ed_school :: "string option"
  ed_degree :: "string option"
  ed_field :: "string option"

record IQProfile =
  iq_name :: "string option"
  iq_title :: "string option"
  iq_company :: "string option"
  iq_industry :: "string option"
  iq_education :: "EducationDetail list option"
  iq_yearsOfExperience :: "real option"
  iq_previousRoles :: "string list option"
  iq_keySkillsExpertise :: "string list option"

text \<open>A value read by \<open>JSON.parse\<close>. In an object a later member of the same name wins.\<close>

datatype json =
  JNull | JBool bool | JNum real | JStr string | JArr "json list" | JObj "(string \<times> json) list"

text \<open>
  The fields of a returned question hold whatever the reply held, so they are JSON values;
  \<open>customizedQuestion\<close> is \<open>None\<close> when the reply's item has no such member.
\<close>

record IntelligentQuestion =
  iq_originalQuestion :: string
  customizedQuestion :: "json option"
  iq_relevanceScore :: json
  reasoning :: json
  iq_category :: string
  iq_subcategory :: string

text \<open>What the \<open>try\<close> block of \<open>getIntelligentQuestions\<close> can throw.\<close>

datatype ai_error =
  ApiKeyMissing | RequestFailed | NoJsonFound | JsonSyntaxError | TypeError

text \<open>
  The collaborators of one call: whether \<open>initializeAI\<close> finds a key (or a cached client),
  the prompt template \<open>createIntelligentSelectionPrompt\<close> (not modelled: the completion
  service is opaque), the completion call up to \<open>response.text()\<close>, \<open>JSON.parse\<close> (\<open>None\<close> for
  a syntax error), and \<open>Array.prototype.sort\<close> under the comparator
  \<open>() => 0.5 - Math.random()\<close>, whose result the language leaves to the engine.
\<close>

record ai_host =
  keyConfigured :: bool
  createPrompt :: "IQProfile \<Rightarrow> ConversationStarter list \<Rightarrow> int \<Rightarrow> string"
  generateContent :: "string \<Rightarrow> ai_error + string"
  JSON_parse :: "string \<Rightarrow> json option"
  sort_random :: "ConversationStarter list \<Rightarrow> real stream \<Rightarrow> ConversationStarter list \<times> real stream"

subsection \<open>Reading the reply\<close>

definition js_truthy :: "json \<Rightarrow> bool" where
  "js_truthy v =
     (case v of JNull \<Rightarrow> False | JBool b \<Rightarrow> b | JNum n \<Rightarrow> n \<noteq> 0 | JStr s \<Rightarrow> s \<noteq> []
      | JArr xs \<Rightarrow> True | JObj kvs \<Rightarrow> True)"

text \<open>
  \<open>v.k\<close> on a value other than \<open>null\<close>, for one of the member names the source reads: the
  member of an object, \<open>undefined\<close> on every other value.
\<close>

definition field :: "json \<Rightarrow> string \<Rightarrow> json option" where
  "field v k = (case v of JObj kvs \<Rightarrow> map_of (rev kvs) k | _ \<Rightarrow> None)"

text \<open>\<open>v.k\<close> on any value: a type error on \<open>null\<close>.\<close>

definition get_member :: "json \<Rightarrow> string \<Rightarrow> ai_error + json option" where
  "get_member v k = (if v = JNull then Inl TypeError else Inr (field v k))"

text \<open>\<open>v || d\<close> for an optional JSON value.\<close>

definition json_or :: "json option \<Rightarrow> json \<Rightarrow> json" where
  "json_or v d = (case v of None \<Rightarrow> d | Some x \<Rightarrow> if js_truthy x then x else d)"

text \<open>
  The values \<open>for (const q of v || [])\<close> runs through: none for a falsy \<open>v\<close>, the elements
  of an array, the characters of a string, a type error on a truthy value that is not
  iterable.
\<close>

definition iterate :: "json option \<Rightarrow> ai_error + json list" where
  "iterate v =
     (case v of
        None \<Rightarrow> Inr []
      | Some JNull \<Rightarrow> Inr []
      | Some (JBool b) \<Rightarrow> if b then Inl TypeError else Inr []
      | Some (JNum n) \<Rightarrow> if n = 0 then Inr [] else Inl TypeError
      | Some (JStr s) \<Rightarrow> Inr (map (\<lambda>c. JStr [c]) s)
      | Some (JArr xs) \<Rightarrow> Inr xs
      | Some (JObj kvs) \<Rightarrow> Inl TypeError)"

text \<open>\<open>response.match(/\{[\s\S]*\}/)\<close>: from the first opening brace to the last closing one.\<close>

definition jsonMatch :: "string \<Rightarrow> string option" where
  "jsonMatch response =
     (let r = dropWhile (\<lambda>c. c \<noteq> CHR 0x7B) response;
          m = rev (dropWhile (\<lambda>c. c \<noteq> CHR 0x7D) (rev r))
      in if m = [] then None else Some m)"

text \<open>
  The loop of \<open>parseAIResponse\<close> over the remaining items. \<open>find\<close> reads \<open>q.questionId\<close>
  once per candidate, so a \<open>null\<close> item throws only when there is a candidate.
\<close>

fun collect :: "ConversationStarter list \<Rightarrow> json list \<Rightarrow> ai_error + IntelligentQuestion list" where
  "collect candidateQuestions [] = Inr []"
| "collect candidateQuestions (q # qs) =
     (if candidateQuestions = [] then collect candidateQuestions qs
      else
        (case get_member q ''questionId'' of
           Inl e \<Rightarrow> Inl e
         | Inr questionId \<Rightarrow>
             (case find (\<lambda>cq. questionId = Some (JNum (of_int (cs_id cq)))) candidateQuestions of
                None \<Rightarrow> collect candidateQuestions qs
              | Some original \<Rightarrow>
                  (case collect candidateQuestions qs of
                     Inl e \<Rightarrow> Inl e
                   | Inr rest \<Rightarrow>
                       Inr (\<lparr> iq_originalQuestion = question original,
                              customizedQuestion = field q ''customizedQuestion'',
                              iq_relevanceScore = json_or (field q ''relevanceScore'') (JNum 80),
                              reasoning =
                                json_or (field q ''reasoning'') (JStr ''AI selected as relevant''),
                              iq_category = category original,
                              iq_subcategory = subcategory original \<rparr> # rest)))))"

definition parseAIResponse ::
  "ai_host \<Rightarrow> string \<Rightarrow> ConversationStarter list \<Rightarrow> ai_error + IntelligentQuestion list" where
  "parseAIResponse host response candidateQuestions =
     (case jsonMatch response of
        None \<Rightarrow> Inl NoJsonFound
      | Some m \<Rightarrow>
          (case JSON_parse host m of
             None \<Rightarrow> Inl JsonSyntaxError
           | Some parsed \<Rightarrow>
               (case get_member parsed ''questions'' of
                  Inl e \<Rightarrow> Inl e
                | Inr questions \<Rightarrow>
                    (case iterate questions of
                       Inl e \<Rightarrow> Inl e
                     | Inr items \<Rightarrow> collect candidateQuestions items))))"

subsection \<open>Profile analysis and pre-filter\<close>

definition determineRoleType :: "string option \<Rightarrow> string" where
  "determineRoleType title =
     (if \<not> truthy title then ''general''
      else if lower_includes title ''engineer'' \<or> lower_includes title ''developer'' \<or>
              lower_includes title ''devops'' then ''technical''
      else if lower_includes title ''manager'' \<or> lower_includes title ''director'' \<or>
              lower_includes title ''lead'' then ''management''
      else if lower_includes title ''sales'' \<or> lower_includes title ''marketing'' then ''business''
      else ''general'')"

definition determineSeniority :: "string option \<Rightarrow> real option \<Rightarrow> string" where
  "determineSeniority title years =
     (case (case years of None \<Rightarrow> None | Some y \<Rightarrow> if y = 0 then None else Some y) of
        Some y \<Rightarrow>
          if y < 3 then ''entry'' else if y < 7 then ''mid'' else if y < 12 then ''senior''
          else ''executive''
      | None \<Rightarrow>
          if truthy title \<and> (lower_includes title ''junior'' \<or> lower_includes title ''associate'')
          then ''entry''
          else if truthy title \<and> (lower_includes title ''senior'' \<or> lower_includes title ''lead'')
          then ''senior''
          else if truthy title \<and>
                  (lower_includes title ''director'' \<or> lower_includes title ''vp'' \<or>
                   lower_includes title ''chief'')
          then ''executive''
          else ''mid'')"

definition preFilterQuestions ::
  "ConversationStarter list \<Rightarrow> string \<Rightarrow> string \<Rightarrow> ConversationStarter list" where
  "preFilterQuestions catalog roleType seniorityLevel =
     (let byRole =
            (if roleType = ''technical'' then
               filter (\<lambda>q. ''technical'' \<in> set (tags q) \<or> ''skills'' \<in> set (tags q) \<or>
                           category q = ''career_background'' \<or>
                           category q = ''personality_motivation'') catalog
             else if roleType = ''management'' then
               filter (\<lambda>q. ''leadership'' \<in> set (tags q) \<or> ''management'' \<in> set (tags q) \<or>
                           ''team'' \<in> set (tags q) \<or> category q = ''soft_skills'') catalog
             else catalog);
          bySeniority =
            (if seniorityLevel = ''senior'' \<or> seniorityLevel = ''executive'' then
               filter (\<lambda>q. ''early_career'' \<notin> set (tags q) \<and>
                           (''leadership'' \<in> set (tags q) \<or> ''mentorship'' \<in> set (tags q) \<or>
                            ''strategy'' \<in> set (tags q))) byRole
             else if seniorityLevel = ''entry'' then
               filter (\<lambda>q. ''learning'' \<in> set (tags q) \<or> ''growth'' \<in> set (tags q) \<or>
                           ''early_career'' \<in> set (tags q) \<or>
                           category q = ''career_background'') byRole
             else byRole)
      in if length bySeniority < 20 then take 50 catalog else bySeniority)"

subsection \<open>The completion path\<close>

definition selectAndCustomizeWithAI ::
  "ai_host \<Rightarrow> IQProfile \<Rightarrow> ConversationStarter list \<Rightarrow> int \<Rightarrow>
   ai_error + IntelligentQuestion list" where
  "selectAndCustomizeWithAI host profile candidateQuestions cnt =
     (if \<not> keyConfigured host then Inl ApiKeyMissing
      else
        (case generateContent host (createPrompt host profile candidateQuestions cnt) of
           Inl e \<Rightarrow> Inl e
         | Inr response \<Rightarrow> parseAIResponse host response candidateQuestions))"

subsection \<open>The fallback path\<close>

definition basicCustomization :: "js_env \<Rightarrow> string \<Rightarrow> IQProfile \<Rightarrow> string" where
  "basicCustomization env q profile =
     (let c1 =
            (if truthy (iq_industry profile) then
               replace_gi [''the industry'']
                 (''the '' @ the (iq_industry profile) @ '' industry'')
                 (replace_gi [''your industry'']
                    (''your '' @ the (iq_industry profile) @ '' industry'') q)
             else q);
          c2 =
            (if truthy (iq_title profile) \<and> truthy (iq_company profile) then
               replace_gi [''your job''] (''your role as '' @ the (iq_title profile))
                 (replace_gi [''your position'']
                    (''your position as '' @ the (iq_title profile) @ '' at '' @
                     the (iq_company profile))
                    (replace_gi [''your role'']
                       (''your role as '' @ the (iq_title profile) @ '' at '' @
                        the (iq_company profile)) c1))
             else c1);
          c3 =
            (if truthy (iq_company profile) then
               replace_gi [''at work''] (''at '' @ the (iq_company profile))
                 (replace_gi [''your company''] (the (iq_company profile)) c2)
             else c2);
          c4 =
            (case iq_education profile of
               None \<Rightarrow> c3
             | Some [] \<Rightarrow> c3
             | Some (primaryEducation # others) \<Rightarrow>
                 if truthy (ed_school primaryEducation) \<and> truthy (ed_degree primaryEducation) then
                   replace_gi [''your background'']
                     (''your background with a '' @ the (ed_degree primaryEducation) @ '' from '' @
                      the (ed_school primaryEducation))
                     (replace_gi [''your education'']
                        (''your '' @ the (ed_degree primaryEducation) @ '' from '' @
                         the (ed_school primaryEducation)) c3)
                 else c3);
          c5 =
            (case iq_yearsOfExperience profile of
               None \<Rightarrow> c4
             | Some y \<Rightarrow>
                 if y = 0 then c4
                 else replace_gi [''your experience'']
                        (''your '' @ Number_toString env y @ '' years of experience'') c4);
          c6 =
            (case iq_keySkillsExpertise profile of
               None \<Rightarrow> c5
             | Some [] \<Rightarrow> c5
             | Some (k # ks) \<Rightarrow>
                 (let topSkills = join '' and '' (take 2 (k # ks))
                  in replace_gi [''your expertise''] (''your expertise in '' @ topSkills)
                       (replace_gi [''your skills''] (''your expertise in '' @ topSkills) c5)))
      in case iq_previousRoles profile of
           None \<Rightarrow> c6
         | Some [] \<Rightarrow> c6
         | Some (r # rs) \<Rightarrow>
             (let previousRole = last (r # rs)
              in replace_gi [''your career'']
                   (''your career progression from '' @ previousRole @ '' to '' @
                    or_else (iq_title profile) ''your current role'')
                   (replace_gi [''your previous role'']
                      (''your previous role as '' @ previousRole) c6)))"

definition fallbackQuestionSelection ::
  "ai_host \<Rightarrow> js_env \<Rightarrow> ConversationStarter list \<Rightarrow> IQProfile \<Rightarrow> int \<Rightarrow> real stream \<Rightarrow>
   IntelligentQuestion list \<times> real stream" where
  "fallbackQuestionSelection host env catalog profile cnt rnd =
     (let (shuffled, rnd') = sort_random host (slice0 catalog (cnt * 2)) rnd;
          questions = slice0 shuffled cnt
      in (map (\<lambda>q. \<lparr> iq_originalQuestion = question q,
                      customizedQuestion = Some (JStr (basicCustomization env (question q) profile)),
                      iq_relevanceScore = JNum 70,
                      reasoning = JStr ''Fallback selection'',
                      iq_category = category q,
                      iq_subcategory = subcategory q \<rparr>) questions,
          rnd'))"

subsection \<open>The service\<close>

text \<open>
  The \<open>try\<close> block: analysis of the profile (of which the role type and the seniority level
  reach the pre-filter), the pre-filter and the completion path. Whatever it throws is
  caught and answered by the fallback.
\<close>

definition getIntelligentQuestions ::
  "ai_host \<Rightarrow> js_env \<Rightarrow> ConversationStarter list \<Rightarrow> IQProfile \<Rightarrow> int \<Rightarrow> real stream \<Rightarrow>
   IntelligentQuestion list \<times> real stream" where
  "getIntelligentQuestions host env catalog profile cnt rnd =
     (let roleType = determineRoleType (iq_title profile);
          seniorityLevel = determineSeniority (iq_title profile) (iq_yearsOfExperience profile);
          relevantQuestions = preFilterQuestions catalog roleType seniorityLevel
      in case selectAndCustomizeWithAI host profile relevantQuestions cnt of
           Inr intelligentQuestions \<Rightarrow> (intelligentQuestions, rnd)
         | Inl e \<Rightarrow> fallbackQuestionSelection host env catalog profile cnt rnd)"

section \<open>Example inputs\<close>

text \<open>
  A host whose \<open>Date\<close> reads \<open>Jan 2020\<close> and \<open>Jan 2022\<close> as midnight UTC of the first of
  January (1577836800000 and 1640995200000 ms), and nothing else.
\<close>

definition example_env :: js_env where
  "example_env =
     \<lparr> Date_parse = (\<lambda>s. if s = ''Jan 2020'' then Some 1577836800000
                         else if s = ''Jan 2022'' then Some 1640995200000 else None),
       Date_now = 1798761600000,
       Number_toString = (\<lambda>r. ''9'') \<rparr>"

definition blank_experience :: Experience where
  "blank_experience =
     \<lparr> exp_title = None, exp_company = None, exp_duration = None, exp_isCurrent = None,
       exp_description = None \<rparr>"

definition blank_profile :: RawProfile where
  "blank_profile =
     \<lparr> rp_name = None, rp_currentRole = None, rp_title = None, rp_currentCompany = None,
       rp_location = None, rp_industry = None, rp_yearsOfExperience = None,
       rp_experience = None, rp_skills = None, rp_certifications = None,
       rp_education = None, rp_volunteerExperience = None, rp_languages = None \<rparr>"

text \<open>The profile of the end-to-end scenario; its one experience item is not marked current.\<close>

definition scenario_profile :: RawProfile where
  "scenario_profile =
     blank_profile
       \<lparr> rp_title := Some ''Senior Software Engineer'',
         rp_currentCompany := Some ''Acme'',
         rp_yearsOfExperience := Some 9,
         rp_experience := Some [blank_experience
           \<lparr> exp_title := Some ''Senior Software Engineer'', exp_company := Some ''Acme'',
             exp_isCurrent := Some False \<rparr>],
         rp_skills := Some [''python'', ''leadership''] \<rparr>"

text \<open>A profile with no stated years: three experience items, the last one unparseable.\<close>

definition derived_profile :: RawProfile where
  "derived_profile =
     blank_profile
       \<lparr> rp_experience := Some
           [blank_experience \<lparr> exp_duration := Some ''1 yr 6 mos'' \<rparr>,
            blank_experience \<lparr> exp_duration := Some ''9 mos'' \<rparr>,
            blank_experience \<lparr> exp_duration := Some ''n/a'' \<rparr>] \<rparr>"

text \<open>A profile that states a negative number of years, as a request body can.\<close>

definition negative_years_profile :: RawProfile where
  "negative_years_profile = blank_profile \<lparr> rp_yearsOfExperience := Some (- 5) \<rparr>"

text \<open>A profile with one skill that names a business and a technical keyword.\<close>

definition dual_skill_profile :: RawProfile where
  "dual_skill_profile = blank_profile \<lparr> rp_skills := Some [''Project management with Python''] \<rparr>"

text \<open>A catalog of five questions: two in the first category, one in a fourth category.\<close>

definition example_catalog :: "ConversationStarter list" where
  "example_catalog =
     [\<lparr> cs_id = 1, category = ''career_background'', subcategory = ''journey'',
        question = ''What do you enjoy most about your role?'', tags = [''technical'', ''career''] \<rparr>,
      \<lparr> cs_id = 2, category = ''career_background'', subcategory = ''journey'',
        question = ''How did your career begin?'', tags = [''early_career''] \<rparr>,
      \<lparr> cs_id = 3, category = ''soft_skills'', subcategory = ''teamwork'',
        question = ''How do you use your skills in a team?'', tags = [''skills'', ''leadership''] \<rparr>,
      \<lparr> cs_id = 4, category = ''personality_motivation'', subcategory = ''drive'',
        question = ''What motivates you?'', tags = [''motivation''] \<rparr>,
      \<lparr> cs_id = 5, category = ''hobbies'', subcategory = ''leisure'',
        question = ''What do you do for fun?'', tags = [''fun''] \<rparr>]"

definition blank_data :: ProfileData where
  "blank_data =
     \<lparr> pd_name = None, pd_title = None, pd_company = None, pd_industry = None,
       pd_skills = None, pd_education = None, pd_experience = None, pd_location = None \<rparr>"

definition example_data :: ProfileData where
  "example_data =
     blank_data
       \<lparr> pd_title := Some ''Senior Software Engineer'', pd_company := Some ''Acme'',
         pd_skills := Some [''python'', ''leadership''] \<rparr>"

definition example_context :: ConversationContext where
  "example_context =
     \<lparr> profileData = example_data, previousQuestionIds = None, sessionId = Some ''A'' \<rparr>"

text \<open>Session A has seen question 2, session B question 1; every random number is 1/2.\<close>

definition example_state :: service_state where
  "example_state =
     \<lparr> sessionQuestions = [''A'' \<mapsto> [2], ''B'' \<mapsto> [1]], random = sconst (1 / 2) \<rparr>"

text \<open>Two untagged questions of one category, a profile with no data, and a generator
  whose first four numbers are 0.5, 0, 0 and 0.5.\<close>

definition pair_catalog :: "ConversationStarter list" where
  "pair_catalog =
     [\<lparr> cs_id = 1, category = ''career_background'', subcategory = ''journey'',
        question = ''What brought you here?'', tags = [] \<rparr>,
      \<lparr> cs_id = 2, category = ''career_background'', subcategory = ''journey'',
        question = ''What comes next?'', tags = [] \<rparr>]"

definition plain_context :: ConversationContext where
  "plain_context = \<lparr> profileData = blank_data, previousQuestionIds = None, sessionId = None \<rparr>"

definition swap_state :: service_state where
  "swap_state =
     \<lparr> sessionQuestions = Map.empty,
       random = 1 / 2 ## 0 ## 0 ## 1 / 2 ## sconst 0 \<rparr>"

text \<open>A question for people early in their career, and a profile whose experience array
  is present and empty.\<close>

definition early_question :: ConversationStarter where
  "early_question =
     \<lparr> cs_id = 7, category = ''career_background'', subcategory = ''start'',
       question = ''What was your first job?'', tags = [''early_career''] \<rparr>"

definition no_experience_data :: ProfileData where
  "no_experience_data = blank_data \<lparr> pd_experience := Some [] \<rparr>"

text \<open>
  Hosts of the intelligent question service. \<^term>\<open>keep_order\<close> is a sort that leaves
  the array as it is, one of the results the random comparator allows. The completion
  service of \<open>failing_host\<close> rejects every request; that of \<open>empty_reply_host\<close> answers every
  prompt with \<open>{}\<close>, an object without a \<open>questions\<close> member, which \<open>JSON.parse\<close> reads as the
  empty object.
\<close>

definition keep_order ::
  "ConversationStarter list \<Rightarrow> real stream \<Rightarrow> ConversationStarter list \<times> real stream" where
  "keep_order xs rnd = (xs, rnd)"

definition failing_host :: ai_host where
  "failing_host =
     \<lparr> keyConfigured = True, createPrompt = (\<lambda>profile questions cnt. ''prompt''),
       generateContent = (\<lambda>prompt. Inl RequestFailed),
       JSON_parse = (\<lambda>s. None), sort_random = keep_order \<rparr>"

definition empty_reply_host :: ai_host where
  "empty_reply_host =
     \<lparr> keyConfigured = True, createPrompt = (\<lambda>profile questions cnt. ''prompt''),
       generateContent = (\<lambda>prompt. Inr [CHR 0x7B, CHR 0x7D]),
       JSON_parse = (\<lambda>s. if s = [CHR 0x7B, CHR 0x7D] then Some (JObj []) else None),
       sort_random = keep_order \<rparr>"

definition example_iq_profile :: IQProfile where
  "example_iq_profile =
     \<lparr> iq_name = Some ''Ada'', iq_title = Some ''Senior Software Engineer'',
       iq_company = Some ''Acme'', iq_industry = None, iq_education = None,
       iq_yearsOfExperience = Some 9, iq_previousRoles = None,
       iq_keySkillsExpertise = Some [''python'', ''leadership''] \<rparr>"

section \<open>Verified properties\<close>

subsection \<open>Career level\<close>

lemma determineCareerLevel_cases:
  "determineCareerLevel y e =
     (if y < 3 then Entry else if y < 8 then Mid else if y < 15 then Senior else Executive)"
  by (simp add: determineCareerLevel_def)

lemmas scan_defs =
  yearMatch_def monthMatch_def isDigit_def isSpace_def isWord_def
  toLowerCase_def toLowerCase_char_def parseInt_def digitValue_def range_at_def month_year_def
  endash_def

lemma years_of_analysis:
  "yearsOfExperience (personalInfo (analyzeProfileForRAG env p)) =
     (case rp_yearsOfExperience p of
        None \<Rightarrow> calculateExperienceYears env (rp_experience p)
      | Some y \<Rightarrow> if y = 0 then calculateExperienceYears env (rp_experience p) else y)"
  by (simp add: analyzeProfileForRAG_def extractPersonalContext_def Let_def)

lemma level_of_analysis:
  "careerLevel (personalInfo (analyzeProfileForRAG env p)) =
     determineCareerLevel (yearsOfExperience (personalInfo (analyzeProfileForRAG env p)))
       (rp_experience p)"
  by (simp add: analyzeProfileForRAG_def extractPersonalContext_def Let_def)

text \<open>
  Claim C5. For a non-negative number of years the career level is \<open>entry\<close> below 3, \<open>mid\<close>
  from 3 through 7, \<open>senior\<close> from 8 through 14 and \<open>executive\<close> from 15 on; a profile that
  states 9 years of experience is analysed as \<open>senior\<close>.
\<close>

theorem career_level_mapping:
  assumes "0 \<le> years"
  shows "(years < 3 \<longrightarrow> determineCareerLevel years experience = Entry) \<and>
         (3 \<le> years \<and> years \<le> 7 \<longrightarrow> determineCareerLevel years experience = Mid) \<and>
         (8 \<le> years \<and> years \<le> 14 \<longrightarrow> determineCareerLevel years experience = Senior) \<and>
         (15 \<le> years \<longrightarrow> determineCareerLevel years experience = Executive) \<and>
         (rp_yearsOfExperience profile = Some 9 \<longrightarrow>
            careerLevel (personalInfo (analyzeProfileForRAG env profile)) = Senior)"
proof -
  have "rp_yearsOfExperience profile = Some 9 \<Longrightarrow>
        careerLevel (personalInfo (analyzeProfileForRAG env profile)) = Senior"
    by (simp add: level_of_analysis years_of_analysis determineCareerLevel_cases)
  then show ?thesis
    by (simp add: determineCareerLevel_cases)
qed

theorem career_level_mapping_witness:
  "determineCareerLevel 1 None = Entry \<and> determineCareerLevel 5 None = Mid \<and>
   determineCareerLevel 9 None = Senior \<and> determineCareerLevel 20 None = Executive \<and>
   careerLevel (personalInfo (analyzeProfileForRAG example_env scenario_profile)) = Senior"
  using career_level_mapping [of 1 None scenario_profile example_env]
    career_level_mapping [of 5 None scenario_profile example_env]
    career_level_mapping [of 9 None scenario_profile example_env]
    career_level_mapping [of 20 None scenario_profile example_env]
  by (simp add: scenario_profile_def blank_profile_def)

subsection \<open>Career progression\<close>

text \<open>
  Claim C9. When the experience list is not empty, the first entry of \<open>careerProgression\<close>
  is current and of high significance, whatever the raw item says about \<open>isCurrent\<close>; the
  progression has one entry per experience item.
\<close>

theorem first_career_step:
  assumes "rp_experience profile = Some (x # xs)"
  shows "\<exists>s rest.
           careerProgression (professionalJourney (analyzeProfileForRAG env profile)) = s # rest \<and>
           isCurrent s \<and> significance s = High \<and> length rest = length xs"
proof -
  have len: "length (map_index f i ys) = length ys"
    for f :: "Experience \<Rightarrow> nat \<Rightarrow> CareerStep" and i ys
    by (induction ys arbitrary: i) simp_all
  show ?thesis
    using assms
    by (simp add: analyzeProfileForRAG_def analyzeProfessionalJourney_def Let_def careerStep_def
        determineRoleSignificance_def len)
qed

theorem first_career_step_witness:
  "exp_isCurrent (hd (the (rp_experience scenario_profile))) = Some False \<and>
   (\<exists>s rest.
     careerProgression (professionalJourney (analyzeProfileForRAG example_env scenario_profile))
       = s # rest \<and>
     isCurrent s \<and> significance s = High \<and> length rest = 0)"
  using first_career_step [of scenario_profile _ "[]" example_env]
  by (simp add: scenario_profile_def blank_profile_def blank_experience_def)

subsection \<open>Skill classification\<close>

text \<open>
  Claim C7 as stated (the two skill buckets are disjoint) fails: a skill that names a
  keyword of each vocabulary is put in both.
\<close>

theorem skill_buckets_overlap_counterexample:
  "set (coreSkills (expertise (analyzeProfileForRAG example_env dual_skill_profile))) \<inter>
   set (technicalSkills (expertise (analyzeProfileForRAG example_env dual_skill_profile))) \<noteq> {}"
  by (simp add: analyzeProfileForRAG_def extractExpertiseContext_def Let_def
      dual_skill_profile_def blank_profile_def identifyCoreSkills_def identifyTechnicalSkills_def
      matches_any_def toLowerCase_def toLowerCase_char_def)

text \<open>
  Claim C7, amended. Each bucket is the raw skill list filtered by its own vocabulary, in
  the raw order; the buckets share exactly the skills that match both vocabularies, and so
  are disjoint if and only if no raw skill matches both.
\<close>

theorem skill_buckets:
  fixes env profile
  defines "e \<equiv> expertise (analyzeProfileForRAG env profile)"
  defines "skills \<equiv> (case rp_skills profile of None \<Rightarrow> [] | Some ss \<Rightarrow> ss)"
  defines "core \<equiv> matches_any
    [''management'', ''leadership'', ''strategy'', ''communication'', ''project'', ''team'']"
  defines "tech \<equiv> matches_any
    [''python'', ''javascript'', ''react'', ''sql'', ''aws'', ''docker'', ''kubernetes'',
     ''machine learning'', ''ai'']"
  shows "coreSkills e = filter core skills \<and>
         technicalSkills e = filter tech skills \<and>
         set (coreSkills e) \<inter> set (technicalSkills e) = {s \<in> set skills. core s \<and> tech s} \<and>
         (set (coreSkills e) \<inter> set (technicalSkills e) = {} \<longleftrightarrow>
            (\<forall>s \<in> set skills. \<not> (core s \<and> tech s)))"
  unfolding e_def skills_def core_def tech_def
  by (auto simp add: analyzeProfileForRAG_def extractExpertiseContext_def Let_def
      identifyCoreSkills_def identifyTechnicalSkills_def)

theorem skill_buckets_witness:
  "coreSkills (expertise (analyzeProfileForRAG example_env scenario_profile)) = [''leadership''] \<and>
   technicalSkills (expertise (analyzeProfileForRAG example_env scenario_profile)) = [''python''] \<and>
   set (coreSkills (expertise (analyzeProfileForRAG example_env scenario_profile))) \<inter>
   set (technicalSkills (expertise (analyzeProfileForRAG example_env scenario_profile))) = {}"
  using skill_buckets [of example_env scenario_profile]
  by (simp add: scenario_profile_def blank_profile_def matches_any_def toLowerCase_def
      toLowerCase_char_def)

subsection \<open>Years of experience\<close>

text \<open>
  Claim C2 as stated (\<open>yearsOfExperience\<close> is never negative) fails: a number of years the
  profile states itself is passed through unchecked.
\<close>

theorem negative_years_counterexample:
  "\<not> 0 \<le> yearsOfExperience
     (personalInfo (analyzeProfileForRAG example_env negative_years_profile))"
  by (simp add: years_of_analysis negative_years_profile_def blank_profile_def)

lemma calculateExperienceYears_nonneg: "0 \<le> calculateExperienceYears env experience"
  by (simp add: calculateExperienceYears_def Let_def split: option.splits)


text \<open>
  Claim C2, amended. The analyzer is a total function of the profile: every field may be
  absent and every duration string is accepted. Its career level is one of the four
  values. Its \<open>yearsOfExperience\<close> is the number the profile states when that is present and
  not 0, and otherwise the number derived from the experience list, which is never
  negative; so the result is non-negative unless the profile states a negative number.
\<close>

theorem analysis_years_and_level:
  fixes env profile
  defines "info \<equiv> personalInfo (analyzeProfileForRAG env profile)"
  defines "derived \<equiv> calculateExperienceYears env (rp_experience profile)"
  shows "careerLevel info \<in> {Entry, Mid, Senior, Executive} \<and>
         0 \<le> derived \<and>
         (rp_yearsOfExperience profile = None \<or> rp_yearsOfExperience profile = Some 0 \<longrightarrow>
            yearsOfExperience info = derived) \<and>
         (\<forall>y. rp_yearsOfExperience profile = Some y \<and> y \<noteq> 0 \<longrightarrow> yearsOfExperience info = y) \<and>
         ((\<forall>y. rp_yearsOfExperience profile = Some y \<longrightarrow> 0 \<le> y) \<longrightarrow>
            0 \<le> yearsOfExperience info)"
proof -
  have "careerLevel info \<in> {Entry, Mid, Senior, Executive}"
    by (cases "careerLevel info") simp_all
  moreover have "0 \<le> derived"
    by (simp add: derived_def calculateExperienceYears_nonneg)
  ultimately show ?thesis
    by (auto simp add: info_def derived_def years_of_analysis split: option.splits)
qed

theorem analysis_years_and_level_witness:
  "yearsOfExperience (personalInfo (analyzeProfileForRAG example_env derived_profile)) = 23 / 10 \<and>
   careerLevel (personalInfo (analyzeProfileForRAG example_env derived_profile)) = Entry \<and>
   yearsOfExperience (personalInfo (analyzeProfileForRAG example_env scenario_profile)) = 9"
  using analysis_years_and_level [of example_env derived_profile]
    analysis_years_and_level [of example_env scenario_profile]
  by (simp add: derived_profile_def scenario_profile_def blank_profile_def blank_experience_def
      level_of_analysis calculateExperienceYears_def experience_months_def duration_months_def
      scan_defs Let_def Math_round_def determineCareerLevel_cases)

subsection \<open>Duration parsing\<close>

lemma months_tokens:
  "experience_months env (xp\<lparr>exp_duration := Some ''1 yr 6 mos''\<rparr>) = 18"
  "experience_months env (xp\<lparr>exp_duration := Some ''9 mos''\<rparr>) = 9"
  by (simp_all add: experience_months_def duration_months_def scan_defs)

lemma months_range:
  assumes "Date_parse env ''Jan 2020'' = Some t0" "Date_parse env ''Jan 2022'' = Some t1"
    and "t1 - t0 = 731 * 86400000"
  shows "experience_months env (xp\<lparr>exp_duration := Some (''Jan 2020 '' @ [endash] @ '' Jan 2022'')\<rparr>) = 25"
proof -
  have m: "dateRangeMatch (''Jan 2020 '' @ [endash] @ '' Jan 2022'') = Some (''Jan 2020'', ''Jan 2022'')"
    by (simp add: scan_defs Let_def)
  have y: "yearMatch (''Jan 2020 '' @ [endash] @ '' Jan 2022'') = None"
    by (simp add: scan_defs)
  have mo: "monthMatch (''Jan 2020 '' @ [endash] @ '' Jan 2022'') = None"
    by (simp add: scan_defs)
  have lc: "toLowerCase ''Jan 2022'' \<noteq> ''present''"
    by (simp add: toLowerCase_def)
  have c: "nat \<lceil>real_of_int \<bar>t1 - t0\<bar> / 2630016000\<rceil> = 25"
    using assms(3) by simp
  have "duration_months env (''Jan 2020 '' @ [endash] @ '' Jan 2022'') = 25"
    unfolding duration_months_def y mo m using assms(1,2) lc c
    by (simp del: append.simps)
  then show ?thesis
    by (simp add: experience_months_def)
qed

lemma months_unparseable:
  assumes "yearMatch d = None" "monthMatch d = None" "dateRangeMatch d = None"
  shows "experience_months env (xp\<lparr>exp_duration := Some d\<rparr>) = 0"
  using assms by (simp add: experience_months_def duration_months_def)

lemma total_years:
  "calculateExperienceYears env (Some (x # xs)) =
     Math_round (real (sum_list (map (experience_months env) (x # xs))) / 12 * 10) / 10"
proof -
  have nn: "0 \<le> Math_round (real n / 12 * 10) / 10" for n :: nat
    by (simp add: Math_round_def)
  show ?thesis
    unfolding calculateExperienceYears_def Let_def
    using nn [of "sum_list (map (experience_months env) (x # xs))"]
    by (simp add: max_def)
qed

lemma round_one_decimal:
  "\<bar>Math_round (y * 10) / 10 - y\<bar> \<le> 1 / 20"
  unfolding Math_round_def by linarith

text \<open>
  Claim C4. What one experience item adds to the sum is counted in months: 18 months
  (1.5 years) for \<open>1 yr 6 mos\<close>, 9 months (0.75 years) for \<open>9 mos\<close>, 25 months (within 0.1 of
  2.0 years) for \<open>Jan 2020\<close> to \<open>Jan 2022\<close> (joined by an en dash) on a host whose \<open>Date\<close> puts the two months
  731 days apart, and nothing for a string none of the three patterns matches. The total
  is the month sum over 12, rounded to one decimal place (so it is within 0.05 of the
  unrounded quotient) and not below 0; for the three one-item lists it is 1.5, 0.8 and 2.1.
\<close>

theorem duration_parsing:
  assumes jan: "Date_parse env ''Jan 2020'' = Some t0" "Date_parse env ''Jan 2022'' = Some t1"
      "t1 - t0 = 731 * 86400000"
    and unparseable: "yearMatch d = None" "monthMatch d = None" "dateRangeMatch d = None"
  shows
    "real (experience_months env (xp\<lparr>exp_duration := Some ''1 yr 6 mos''\<rparr>)) / 12 = 3 / 2 \<and>
     real (experience_months env (xp\<lparr>exp_duration := Some ''9 mos''\<rparr>)) / 12 = 3 / 4 \<and>
     \<bar>real (experience_months env
        (xp\<lparr>exp_duration := Some (''Jan 2020 '' @ [endash] @ '' Jan 2022'')\<rparr>)) / 12 - 2\<bar> \<le> 1 / 10 \<and>
     experience_months env (xp\<lparr>exp_duration := Some d\<rparr>) = 0 \<and>
     calculateExperienceYears env (Some (x # xs)) =
       max (Math_round (real (sum_list (map (experience_months env) (x # xs))) / 12 * 10) / 10) 0 \<and>
     \<bar>calculateExperienceYears env (Some (x # xs)) -
        real (sum_list (map (experience_months env) (x # xs))) / 12\<bar> \<le> 1 / 20 \<and>
     0 \<le> calculateExperienceYears env experience \<and>
     calculateExperienceYears env (Some [xp\<lparr>exp_duration := Some ''1 yr 6 mos''\<rparr>]) = 3 / 2 \<and>
     calculateExperienceYears env (Some [xp\<lparr>exp_duration := Some ''9 mos''\<rparr>]) = 4 / 5 \<and>
     calculateExperienceYears env
       (Some [xp\<lparr>exp_duration := Some (''Jan 2020 '' @ [endash] @ '' Jan 2022'')\<rparr>]) = 21 / 10"
proof -
  note r = months_range [OF jan, of xp]
  note u = months_unparseable [OF unparseable, of env xp]
  have t: "calculateExperienceYears env (Some (x # xs)) =
       max (Math_round (real (sum_list (map (experience_months env) (x # xs))) / 12 * 10) / 10) 0"
    unfolding calculateExperienceYears_def Let_def
    by (simp only: option.case list.distinct if_False)
  have b: "\<bar>calculateExperienceYears env (Some (x # xs)) -
        real (sum_list (map (experience_months env) (x # xs))) / 12\<bar> \<le> 1 / 20"
    unfolding total_years by (rule round_one_decimal)
  have s1: "calculateExperienceYears env (Some [xp\<lparr>exp_duration := Some ''1 yr 6 mos''\<rparr>]) = 3 / 2"
    unfolding total_years by (simp add: months_tokens Math_round_def)
  have s2: "calculateExperienceYears env (Some [xp\<lparr>exp_duration := Some ''9 mos''\<rparr>]) = 4 / 5"
    unfolding total_years by (simp add: months_tokens Math_round_def)
  have s3: "calculateExperienceYears env
       (Some [xp\<lparr>exp_duration := Some (''Jan 2020 '' @ [endash] @ '' Jan 2022'')\<rparr>]) = 21 / 10"
    unfolding total_years by (simp add: r Math_round_def del: append.simps)
  show ?thesis
    unfolding r u months_tokens
    using t b s1 s2 s3 calculateExperienceYears_nonneg [of env experience]
    by simp
qed

theorem duration_parsing_witness:
  "experience_months example_env (blank_experience\<lparr>exp_duration := Some ''1 yr 6 mos''\<rparr>) = 18 \<and>
   experience_months example_env (blank_experience\<lparr>exp_duration := Some ''9 mos''\<rparr>) = 9 \<and>
   experience_months example_env (blank_experience\<lparr>exp_duration := Some ''n/a''\<rparr>) = 0 \<and>
   calculateExperienceYears example_env (rp_experience derived_profile) = 23 / 10"
  using duration_parsing [of example_env 1577836800000 1640995200000 "''n/a''" blank_experience
      "blank_experience\<lparr>exp_duration := Some ''1 yr 6 mos''\<rparr>"
      "[blank_experience\<lparr>exp_duration := Some ''9 mos''\<rparr>,
        blank_experience\<lparr>exp_duration := Some ''n/a''\<rparr>]" None]
  by (simp add: example_env_def scan_defs derived_profile_def blank_profile_def Math_round_def)

subsection \<open>Diverse selection\<close>

lemma score_all_fst: "map fst (fst (score_all qs pd rnd)) = qs"
  by (induction qs arbitrary: rnd) (simp_all add: Let_def case_prod_beta)

lemma rank_mset: "mset (fst (rankQuestionsByRelevance qs pd rnd)) = mset qs"
proof -
  have "mset (map fst (sort_key (\<lambda>item. - snd item) (fst (score_all qs pd rnd)))) =
        mset (map fst (fst (score_all qs pd rnd)))"
    by (simp only: mset_map mset_sort)
  then show ?thesis
    by (simp add: rankQuestionsByRelevance_def score_all_fst case_prod_beta)
qed

lemma slice0_mset: "mset (slice0 xs n) \<subseteq># mset xs"
proof -
  have "mset (take k xs) \<subseteq># mset xs" for k
    by (metis append_take_drop_id mset_append mset_subset_eq_add_left)
  then show ?thesis by (simp add: slice0_def)
qed

lemma slice0_length: "length (slice0 xs n) \<le> length xs"
  by (auto simp add: slice0_def)

lemma draw_mset: "mset (fst (draw n pool rnd)) \<subseteq># mset pool"
proof (induction n arbitrary: pool rnd)
  case 0
  then show ?case by simp
next
  case (Suc n)
  show ?case
  proof (cases "pool = []")
    case True
    then show ?thesis by simp
  next
    case False
    define i where "i = min (nat \<lfloor>shd rnd * real (length pool)\<rfloor>) (length pool - 1)"
    have i: "i < length pool" using False by (cases pool) (simp_all add: i_def)
    have split: "mset pool = {#pool ! i#} + mset (take i pool @ drop (Suc i) pool)"
      using id_take_nth_drop [OF i] by (metis add_mset_add_single mset.simps(2) mset_append union_mset_add_mset_right union_commute)
    have "mset (fst (draw n (take i pool @ drop (Suc i) pool) (stl rnd))) \<subseteq># mset (take i pool @ drop (Suc i) pool)"
      by (rule Suc.IH)
    moreover have "fst (draw (Suc n) pool rnd) =
        pool ! i # fst (draw n (take i pool @ drop (Suc i) pool) (stl rnd))"
      using False unfolding i_def by (simp add: Let_def case_prod_beta)
    ultimately show ?thesis
      using split by (simp del: mset_append)
  qed
qed

lemma draw_all: "length pool \<le> n \<Longrightarrow> mset (fst (draw n pool rnd)) = mset pool"
proof (induction n arbitrary: pool rnd)
  case 0
  then show ?case by simp
next
  case (Suc n)
  show ?case
  proof (cases "pool = []")
    case True
    then show ?thesis by simp
  next
    case False
    define i where "i = min (nat \<lfloor>shd rnd * real (length pool)\<rfloor>) (length pool - 1)"
    have i: "i < length pool" using False by (cases pool) (simp_all add: i_def)
    have split: "mset pool = {#pool ! i#} + mset (take i pool @ drop (Suc i) pool)"
      using id_take_nth_drop [OF i] by (metis add_mset_add_single mset.simps(2) mset_append union_mset_add_mset_right union_commute)
    have "length (take i pool @ drop (Suc i) pool) \<le> n"
      using Suc.prems i by simp
    then have "mset (fst (draw n (take i pool @ drop (Suc i) pool) (stl rnd))) = mset (take i pool @ drop (Suc i) pool)"
      by (rule Suc.IH)
    moreover have "fst (draw (Suc n) pool rnd) =
        pool ! i # fst (draw n (take i pool @ drop (Suc i) pool) (stl rnd))"
      using False unfolding i_def by (simp add: Let_def case_prod_beta)
    ultimately show ?thesis
      using split by (simp del: mset_append)
  qed
qed

lemma filter_mset_disjoint_union:
  assumes "\<And>x. \<not> (P x \<and> Q x)"
  shows "filter_mset P M + filter_mset Q M = filter_mset (\<lambda>x. P x \<or> Q x) M"
  using assms by (intro multiset_eqI) auto

lemma select_by_category_extra:
  assumes "distinct (map fst distribution)"
  shows "\<exists>extra. fst (select_by_category catalog pd used distribution sel rnd) = sel @ extra \<and>
           mset extra \<subseteq># filter_mset (\<lambda>q. category q \<in> fst ` set distribution)
                                (mset (filter (\<lambda>q. cs_id q \<notin> set used) catalog))"
  using assms
proof (induction distribution arbitrary: sel rnd)
  case Nil
  then show ?case by simp
next
  case (Cons a rest)
  obtain c n where a: "a = (c, n)" by (cases a)
  define U where "U = filter (\<lambda>q. cs_id q \<notin> set used) catalog"
  define avail where "avail = filter (\<lambda>q. cs_id q \<notin> set used) (getQuestionsByCategory catalog c)"
  have dr: "distinct (map fst rest)" and c: "c \<notin> fst ` set rest"
    using Cons.prems a by auto
  have avail: "mset avail = filter_mset (\<lambda>q. category q = c) (mset U)"
    by (auto simp add: avail_def U_def getQuestionsByCategory_def filter_filter_mset
        intro!: filter_mset_cong)
  have union: "filter_mset (\<lambda>q. category q = c) (mset U) +
               filter_mset (\<lambda>q. category q \<in> fst ` set rest) (mset U) =
               filter_mset (\<lambda>q. category q \<in> fst ` set (a # rest)) (mset U)"
    using c by (subst filter_mset_disjoint_union) (auto simp add: a intro!: filter_mset_cong)
  show ?case
  proof (cases "avail = []")
    case True
    obtain extra where e: "fst (select_by_category catalog pd used rest sel rnd) = sel @ extra"
      "mset extra \<subseteq># filter_mset (\<lambda>q. category q \<in> fst ` set rest) (mset U)"
      using Cons.IH [OF dr, of sel rnd, folded U_def] by blast
    have "filter_mset (\<lambda>q. category q \<in> fst ` set rest) (mset U) \<subseteq>#
          filter_mset (\<lambda>q. category q \<in> fst ` set (a # rest)) (mset U)"
      unfolding union [symmetric] by (rule mset_subset_eq_add_right)
    with e(2) have "mset extra \<subseteq># filter_mset (\<lambda>q. category q \<in> fst ` set (a # rest)) (mset U)"
      by (rule subset_mset.order_trans)
    moreover have "fst (select_by_category catalog pd used (a # rest) sel rnd) = sel @ extra"
      using True e(1) by (simp add: a avail_def [symmetric] Let_def)
    ultimately show ?thesis
      unfolding U_def by blast
  next
    case False
    define picked where "picked = slice0 (fst (rankQuestionsByRelevance avail pd rnd)) n"
    define rnd' where "rnd' = snd (rankQuestionsByRelevance avail pd rnd)"
    have p: "mset picked \<subseteq># filter_mset (\<lambda>q. category q = c) (mset U)"
      using slice0_mset [of "fst (rankQuestionsByRelevance avail pd rnd)" n]
      by (simp add: picked_def rank_mset avail)
    obtain extra where e:
      "fst (select_by_category catalog pd used rest (sel @ picked) rnd') = (sel @ picked) @ extra"
      "mset extra \<subseteq># filter_mset (\<lambda>q. category q \<in> fst ` set rest) (mset U)"
      using Cons.IH [OF dr, of "sel @ picked" rnd', folded U_def] by blast
    have "mset (picked @ extra) \<subseteq># filter_mset (\<lambda>q. category q \<in> fst ` set (a # rest)) (mset U)"
      using p e(2) unfolding union [symmetric] by (simp add: subset_mset.add_mono)
    moreover have "fst (select_by_category catalog pd used (a # rest) sel rnd) = sel @ picked @ extra"
      using False e(1)
      by (simp add: a avail_def [symmetric] Let_def case_prod_beta picked_def rnd'_def)
    ultimately show ?thesis
      unfolding U_def by blast
  qed
qed

lemma distinct_categories: "distinct (map fst (calculateCategoryDistribution n))"
  by (simp add: calculateCategoryDistribution_def Let_def)

lemma selected_by_category_unused:
  "mset (fst (select_by_category catalog pd used (calculateCategoryDistribution n) [] rnd))
     \<subseteq># mset (filter (\<lambda>q. cs_id q \<notin> set used) catalog)"
proof -
  obtain extra where
    "fst (select_by_category catalog pd used (calculateCategoryDistribution n) [] rnd) = [] @ extra"
    "mset extra \<subseteq># filter_mset (\<lambda>q. category q \<in> fst ` set (calculateCategoryDistribution n))
                                (mset (filter (\<lambda>q. cs_id q \<notin> set used) catalog))"
    using select_by_category_extra [OF distinct_categories] by blast
  then show ?thesis
    using multiset_filter_subset subset_mset.order_trans by fastforce
qed

lemma mset_sub_distinct_map:
  assumes "mset xs \<subseteq># mset ys" and "distinct (map f ys)"
  shows "distinct (map f xs)"
proof -
  have "image_mset f (mset xs) \<subseteq># image_mset f (mset ys)"
    using assms(1) by (rule image_mset_subseteq_mono)
  then have le: "count (mset (map f xs)) a \<le> count (mset (map f ys)) a" for a
    by (simp add: mset_subset_eq_count)
  have "count (mset (map f ys)) a \<le> 1" for a
    using assms(2) by (simp add: distinct_count_atmost_1)
  then have "count (mset (map f xs)) a \<le> 1" for a
    using le [of a] by (meson order_trans)
  then show ?thesis
    unfolding distinct_count_atmost_1
    by (metis count_mset_0_iff le_antisym less_one linorder_not_le)
qed

lemma selected_and_pool:
  assumes "mset sel \<subseteq># mset U"
  shows "mset sel + mset (filter (\<lambda>q. cs_id q \<notin> set (map cs_id sel)) U) \<subseteq># mset U"
proof -
  have "filter_mset (\<lambda>q. cs_id q \<in> set (map cs_id sel)) (mset sel) \<subseteq>#
        filter_mset (\<lambda>q. cs_id q \<in> set (map cs_id sel)) (mset U)"
    using assms by (rule multiset_filter_mono)
  moreover have "filter_mset (\<lambda>q. cs_id q \<in> set (map cs_id sel)) (mset sel) = mset sel"
    by (simp add: filter_mset_eq_conv)
  moreover have "mset U = filter_mset (\<lambda>q. cs_id q \<in> set (map cs_id sel)) (mset U) +
                  filter_mset (\<lambda>q. \<not> cs_id q \<in> set (map cs_id sel)) (mset U)"
    by (rule multiset_partition)
  ultimately show ?thesis
    by (metis mset_filter subset_mset.add_right_mono)
qed

lemma pool_filter:
  "filter (\<lambda>q. cs_id q \<notin> set (used @ ids)) catalog =
   filter (\<lambda>q. cs_id q \<notin> set ids) (filter (\<lambda>q. cs_id q \<notin> set used) catalog)"
  by (induction catalog) auto

lemma selectedQuestions_unfold:
  "fst (selectedQuestions catalog pd used cnt rnd) =
     (if int (length (fst (select_by_category catalog pd used
                            (calculateCategoryDistribution cnt) [] rnd))) < cnt
      then fst (select_by_category catalog pd used (calculateCategoryDistribution cnt) [] rnd) @
           fst (draw (nat (cnt - int (length (fst (select_by_category catalog pd used
                                               (calculateCategoryDistribution cnt) [] rnd)))))
                  (filter (\<lambda>q. cs_id q \<notin> set (map cs_id (fst (select_by_category catalog pd used
                                               (calculateCategoryDistribution cnt) [] rnd))))
                     (filter (\<lambda>q. cs_id q \<notin> set used) catalog))
                  (snd (select_by_category catalog pd used (calculateCategoryDistribution cnt) [] rnd)))
      else fst (select_by_category catalog pd used (calculateCategoryDistribution cnt) [] rnd))"
  by (simp add: selectedQuestions_def getRandomQuestions_def Let_def case_prod_beta pool_filter)

lemma selected_unused:
  "mset (fst (selectedQuestions catalog pd used cnt rnd))
     \<subseteq># mset (filter (\<lambda>q. cs_id q \<notin> set used) catalog)"
proof -
  define U where "U = filter (\<lambda>q. cs_id q \<notin> set used) catalog"
  define r where "r = select_by_category catalog pd used (calculateCategoryDistribution cnt) [] rnd"
  define pool where "pool = filter (\<lambda>q. cs_id q \<notin> set (map cs_id (fst r))) U"
  have s: "mset (fst r) \<subseteq># mset U"
    unfolding r_def U_def by (rule selected_by_category_unused)
  have "mset (fst (draw n pool rnd')) \<subseteq># mset pool" for n rnd'
    by (rule draw_mset)
  then have "mset (fst r) + mset (fst (draw n pool rnd')) \<subseteq># mset U" for n rnd'
    using selected_and_pool [OF s, folded pool_def]
    by (meson subset_mset.add_left_mono subset_mset.order_trans)
  then have "mset (fst r @ fst (draw n pool rnd')) \<subseteq># mset U" for n rnd'
    by simp
  then show ?thesis
    unfolding selectedQuestions_unfold r_def [symmetric] U_def [symmetric] pool_def [symmetric]
    using s by (cases "int (length (fst r)) < cnt") (simp_all only: if_True if_False)
qed

lemma personalize_all_original:
  "map originalQuestion (fst (personalize_all qs pd rnd)) = map question qs"
  by (induction qs arbitrary: rnd) (simp_all add: Let_def case_prod_beta personalizeQuestion_def)

lemma getDiverseQuestions_result:
  "fst (getDiverseQuestions catalog context cnt st) =
     fst (personalize_all
       (fst (selectedQuestions catalog (profileData context)
              (case sessionQuestions st (case sessionId context of None \<Rightarrow> ''default'' | Some s \<Rightarrow> s) of
                 None \<Rightarrow> [] | Some used \<Rightarrow> used) cnt (random st)))
       (profileData context)
       (snd (selectedQuestions catalog (profileData context)
              (case sessionQuestions st (case sessionId context of None \<Rightarrow> ''default'' | Some s \<Rightarrow> s) of
                 None \<Rightarrow> [] | Some used \<Rightarrow> used) cnt (random st))))"
  by (simp add: getDiverseQuestions_def Let_def case_prod_beta)

lemma selected_all_when_short:
  assumes ids: "distinct (map cs_id catalog)"
    and short: "int (length (filter (\<lambda>q. cs_id q \<notin> set used) catalog)) < cnt"
  shows "mset (fst (selectedQuestions catalog pd used cnt rnd)) =
         mset (filter (\<lambda>q. cs_id q \<notin> set used) catalog)"
proof -
  define U where "U = filter (\<lambda>q. cs_id q \<notin> set used) catalog"
  define r where "r = select_by_category catalog pd used (calculateCategoryDistribution cnt) [] rnd"
  define pool where "pool = filter (\<lambda>q. cs_id q \<notin> set (map cs_id (fst r))) U"
  define F where "F = filter (\<lambda>q. cs_id q \<in> set (map cs_id (fst r))) U"
  have s: "mset (fst r) \<subseteq># mset U"
    unfolding r_def U_def by (rule selected_by_category_unused)
  have dU: "distinct (map cs_id U)"
    unfolding U_def using ids by (rule distinct_map_filter)
  then have inj: "inj_on cs_id (set U)" and dU': "distinct U"
    by (simp_all add: distinct_map)
  have dr: "distinct (fst r)"
    using mset_sub_distinct_map [OF s dU] by (simp add: distinct_map)
  have sub: "set (fst r) \<subseteq> set U"
    using s by (metis set_mset_mono set_mset_mset)
  have "set F = set (fst r)"
  proof
    show "set F \<subseteq> set (fst r)"
    proof
      fix q assume "q \<in> set F"
      then have q: "q \<in> set U" "cs_id q \<in> cs_id ` set (fst r)" by (simp_all add: F_def)
      then obtain x where x: "x \<in> set (fst r)" "cs_id q = cs_id x" by auto
      with sub have "x \<in> set U" by auto
      with inj q(1) x(2) have "q = x" by (simp add: inj_on_def)
      with x(1) show "q \<in> set (fst r)" by simp
    qed
    show "set (fst r) \<subseteq> set F" using sub by (auto simp add: F_def)
  qed
  moreover have "distinct F" unfolding F_def using dU' by simp
  ultimately have F: "mset F = mset (fst r)"
    using dr by (simp add: set_eq_iff_mset_eq_distinct)
  have part: "mset U = mset F + mset pool"
    unfolding F_def pool_def mset_filter by (rule multiset_partition)
  have len: "length (fst r) + length pool = length U"
    using part F by (metis size_mset size_union)
  then have lt: "int (length (fst r)) < cnt"
    using short unfolding U_def [symmetric] by linarith
  have "length pool \<le> nat (cnt - int (length (fst r)))"
    using len short unfolding U_def [symmetric] by linarith
  then have "mset (fst (draw (nat (cnt - int (length (fst r)))) pool (snd r))) = mset pool"
    by (rule draw_all)
  then have "mset (fst r @ fst (draw (nat (cnt - int (length (fst r)))) pool (snd r))) = mset U"
    using part F by simp
  then show ?thesis
    unfolding selectedQuestions_unfold r_def [symmetric] U_def [symmetric] pool_def [symmetric]
    using lt by (simp only: if_True)
qed

lemmas service_eval =
  example_catalog_def example_data_def blank_data_def example_context_def example_state_def
  pair_catalog_def plain_context_def swap_state_def early_question_def no_experience_data_def
  selectedQuestions_def getDiverseQuestions_def calculateCategoryDistribution_def js_rem_def
  getQuestionsByCategory_def rankQuestionsByRelevance_def calculateRelevanceScore_def
  getRandomQuestions_def slice0_def Let_def truthy_def lower_includes_def matches_any_def
  toLowerCase_def toLowerCase_char_def personalizeQuestion_def isRoleRelevant_def
  isSkillRelevant_def isEducationRelevant_def eval_nat_numeral

lemma example_selection:
  "map cs_id (fst (selectedQuestions example_catalog example_data [2] 5 (sconst (1 / 2)))) = [1, 3, 4, 5]"
  by (simp add: service_eval)

text \<open>
  Claim C1. Let the catalog have pairwise distinct ids. The questions one call of
  \<open>getDiverseQuestions\<close> returns are the personalized forms, in order, of the selected
  catalog entries; these have pairwise distinct ids, none of them in the session's used-id
  list at the start of the call. When fewer than \<open>cnt\<close> catalog entries are unused, the
  selection is the whole unused remainder (a permutation of it) and is shorter than \<open>cnt\<close>.
  The model is a total function: no path of the call raises.
\<close>

theorem diverse_questions_distinct_unused:
  fixes catalog ctx cnt st
  defines "sid \<equiv> (case sessionId ctx of None \<Rightarrow> ''default'' | Some s \<Rightarrow> s)"
  defines "used \<equiv> (case sessionQuestions st sid of None \<Rightarrow> [] | Some u \<Rightarrow> u)"
  defines "sel \<equiv> fst (selectedQuestions catalog (profileData ctx) used cnt (random st))"
  defines "unused \<equiv> filter (\<lambda>q. cs_id q \<notin> set used) catalog"
  assumes ids: "distinct (map cs_id catalog)"
  shows "map originalQuestion (fst (getDiverseQuestions catalog ctx cnt st)) = map question sel \<and>
         distinct (map cs_id sel) \<and>
         set (map cs_id sel) \<inter> set used = {} \<and>
         set sel \<subseteq> set catalog \<and>
         (int (length unused) < cnt \<longrightarrow> mset sel = mset unused \<and> int (length sel) < cnt)"
proof -
  have s: "mset sel \<subseteq># mset unused"
    unfolding sel_def unused_def by (rule selected_unused)
  have sub: "set sel \<subseteq> set unused"
    using s by (metis set_mset_mono set_mset_mset)
  have 1: "map originalQuestion (fst (getDiverseQuestions catalog ctx cnt st)) = map question sel"
    unfolding getDiverseQuestions_result sel_def used_def sid_def by (rule personalize_all_original)
  have 2: "distinct (map cs_id sel)"
    using s distinct_map_filter [OF ids] unfolding unused_def by (rule mset_sub_distinct_map)
  have 3: "set (map cs_id sel) \<inter> set used = {}"
    using sub by (auto simp add: unused_def)
  have 4: "set sel \<subseteq> set catalog"
    using sub by (auto simp add: unused_def)
  have 5: "mset sel = mset unused \<and> int (length sel) < cnt" if "int (length unused) < cnt"
  proof -
    have "mset sel = mset unused"
      unfolding sel_def unused_def using ids that [unfolded unused_def] by (rule selected_all_when_short)
    moreover from this have "length sel = length unused" by (metis size_mset)
    ultimately show ?thesis using that by simp
  qed
  from 1 2 3 4 5 show ?thesis by blast
qed

theorem diverse_questions_distinct_unused_witness:
  "distinct (map cs_id example_catalog) \<and>
   map cs_id (fst (selectedQuestions example_catalog example_data [2] 5 (sconst (1 / 2)))) =
     [1, 3, 4, 5] \<and>
   distinct (map cs_id (fst (selectedQuestions example_catalog example_data [2] 5 (sconst (1 / 2))))) \<and>
   mset (fst (selectedQuestions example_catalog example_data [2] 5 (sconst (1 / 2)))) =
     mset (filter (\<lambda>q. cs_id q \<notin> set [2]) example_catalog) \<and>
   int (length (fst (selectedQuestions example_catalog example_data [2] 5 (sconst (1 / 2))))) < 5"
proof -
  have d: "distinct (map cs_id example_catalog)"
    by (simp add: example_catalog_def)
  have short: "int (length (filter (\<lambda>q. cs_id q \<notin> set [2]) example_catalog)) < 5"
    by (simp add: example_catalog_def)
  note t = diverse_questions_distinct_unused [OF d, where ctx = example_context and cnt = 5
      and st = example_state]
  show ?thesis
    using t d short example_selection
    by (simp add: example_context_def example_state_def)
qed

subsection \<open>Relevance score\<close>

lemma title_bonus:
  "(if truthy t then
      (let a = (if c1 \<and> lower_includes t ''lead'' then s + 3 else s);
           b = (if c2 \<and> lower_includes t ''manager'' then a + 3 else a)
       in if c3 \<and> (lower_includes t ''engineer'' \<or> lower_includes t ''developer'')
          then b + 3 else b)
    else s) =
   s + ((if lower_includes t ''lead'' \<and> c1 then 3 else 0) +
        ((if lower_includes t ''manager'' \<and> c2 then 3 else 0) +
         (if (lower_includes t ''engineer'' \<or> lower_includes t ''developer'') \<and> c3
          then 3 else (0::real))))"
  by (cases t) (auto simp add: truthy_def lower_includes_def Let_def toLowerCase_def)

lemma industry_bonus:
  "(if truthy i then
      (let a = (if c1 \<and> lower_includes i ''tech'' then s + 2 else s)
       in if c2 \<and> lower_includes i ''finance'' then a + 2 else a)
    else s) =
   s + ((if lower_includes i ''tech'' \<and> c1 then 2 else 0) +
        (if lower_includes i ''finance'' \<and> c2 then 2 else (0::real)))"
  by (cases i) (auto simp add: truthy_def lower_includes_def Let_def toLowerCase_def)

lemma skills_bonus:
  "(case sk of
      None \<Rightarrow> s
    | Some skills \<Rightarrow>
        if length skills > 0 then
          (let hasRelevantSkills = list_ex P skills
           in if hasRelevantSkills then (if c then s + 2 else s) else s)
        else s) =
   s + (if (case sk of None \<Rightarrow> False | Some skills \<Rightarrow> list_ex P skills) \<and> c
        then 2 else (0::real))"
  by (cases sk) (auto simp add: Let_def)

lemma experience_bonus:
  "(case ex of
      None \<Rightarrow> s
    | Some experience \<Rightarrow>
        if length experience > 0 then
          (let experienceYears = length experience;
               a = (if experienceYears > 5 \<and> c1 then s + 2 else s)
           in if experienceYears < 3 \<and> c2 then a + 2 else a)
        else s) =
   s + ((if (case ex of None \<Rightarrow> False | Some experience \<Rightarrow> length experience > 5) \<and> c1
         then 2 else 0) +
        (if (case ex of None \<Rightarrow> False
             | Some experience \<Rightarrow> 0 < length experience \<and> length experience < 3) \<and> c2
         then 2 else (0::real)))"
  by (cases ex) (auto simp add: Let_def)

lemma score_sum:
  "fst (calculateRelevanceScore q pd rnd) =
     sum_list (listed_bonuses (\<lambda>n. 0 < n \<and> n < 3) q pd) + shd rnd * 2"
  unfolding calculateRelevanceScore_def listed_bonuses_def
  by (simp only: Let_def title_bonus [unfolded Let_def] industry_bonus [unfolded Let_def]
      skills_bonus [unfolded Let_def] experience_bonus [unfolded Let_def]
      sum_list.Cons sum_list.Nil add.assoc add_0_left add_0_right fst_conv)

text \<open>
  Claim C6 as stated fails where the experience array is present and empty: its length 0
  is below 3, so the listed early-career bonus fires, but the source scores experience only
  when the array is not empty. The score is then below the listed bonuses alone.
\<close>

theorem relevance_score_counterexample:
  "fst (calculateRelevanceScore early_question no_experience_data (sconst (1 / 2))) <
   sum_list (listed_bonuses (\<lambda>n. n < 3) early_question no_experience_data)"
  by (simp add: calculateRelevanceScore_def listed_bonuses_def early_question_def
      no_experience_data_def blank_data_def Let_def truthy_def lower_includes_def)

text \<open>
  Claim C6, amended. The score is the sum of the listed bonuses that fire, the
  early-career bonus firing for an experience array of length 1 or 2, plus twice the random
  number drawn. Every bonus is 0, 2 or 3; off the empty experience array the amended list
  is the listed one; and for a random number in [0, 1) the jitter is in [0, 2) and the
  score is not negative.
\<close>

theorem relevance_score_sum:
  "fst (calculateRelevanceScore q pd rnd) =
     sum_list (listed_bonuses (\<lambda>n. 0 < n \<and> n < 3) q pd) + shd rnd * 2 \<and>
   snd (calculateRelevanceScore q pd rnd) = stl rnd \<and>
   (\<forall>b \<in> set (listed_bonuses (\<lambda>n. 0 < n \<and> n < 3) q pd). b = 0 \<or> b = 2 \<or> b = 3) \<and>
   (pd_experience pd \<noteq> Some [] \<longrightarrow>
      listed_bonuses (\<lambda>n. 0 < n \<and> n < 3) q pd = listed_bonuses (\<lambda>n. n < 3) q pd) \<and>
   (0 \<le> shd rnd \<and> shd rnd < 1 \<longrightarrow>
      0 \<le> shd rnd * 2 \<and> shd rnd * 2 < 2 \<and> 0 \<le> fst (calculateRelevanceScore q pd rnd))"
proof -
  have b: "\<forall>b \<in> set (listed_bonuses (\<lambda>n. 0 < n \<and> n < 3) q pd). b = 0 \<or> b = 2 \<or> b = 3"
    by (simp add: listed_bonuses_def)
  then have "0 \<le> sum_list (listed_bonuses (\<lambda>n. 0 < n \<and> n < 3) q pd)"
    by (intro sum_list_nonneg) auto
  moreover have "pd_experience pd \<noteq> Some [] \<Longrightarrow>
      listed_bonuses (\<lambda>n. 0 < n \<and> n < 3) q pd = listed_bonuses (\<lambda>n. n < 3) q pd"
    by (cases "pd_experience pd") (simp_all add: listed_bonuses_def)
  moreover have "snd (calculateRelevanceScore q pd rnd) = stl rnd"
    by (simp add: calculateRelevanceScore_def Let_def)
  ultimately show ?thesis
    using b score_sum [of q pd rnd] by simp
qed

theorem relevance_score_sum_witness:
  "fst (calculateRelevanceScore (hd example_catalog) example_data (sconst (1 / 2))) = 3 + 2 + 1 \<and>
   listed_bonuses (\<lambda>n. 0 < n \<and> n < 3) (hd example_catalog) example_data = [0, 0, 3, 0, 0, 2, 0, 0]"
  using relevance_score_sum [of "hd example_catalog" example_data "sconst (1 / 2)"]
  by (simp add: listed_bonuses_def example_catalog_def example_data_def blank_data_def
      lower_includes_def matches_any_def toLowerCase_def toLowerCase_char_def)

subsection \<open>Session tracking and the score of a returned question\<close>

text \<open>
  Claim C8. A call for session \<open>A\<close> leaves the used-id list of every other session as it
  was, and sets that of \<open>A\<close> to its prior value followed by the ids of the questions it
  returns, in order. The call reads no other entry: from two states that agree on \<open>A\<close> and
  on the random numbers it returns the same questions and the same list for \<open>A\<close>.
\<close>

theorem selection_frame:
  fixes catalog ctx cnt st
  defines "A \<equiv> (case sessionId ctx of None \<Rightarrow> ''default'' | Some s \<Rightarrow> s)"
  defines "used \<equiv> (case sessionQuestions st A of None \<Rightarrow> [] | Some u \<Rightarrow> u)"
  defines "sel \<equiv> fst (selectedQuestions catalog (profileData ctx) used cnt (random st))"
  defines "st' \<equiv> snd (getDiverseQuestions catalog ctx cnt st)"
  shows "(\<forall>B. B \<noteq> A \<longrightarrow> sessionQuestions st' B = sessionQuestions st B) \<and>
         sessionQuestions st' A = Some (used @ map cs_id sel) \<and>
         map originalQuestion (fst (getDiverseQuestions catalog ctx cnt st)) = map question sel \<and>
         (\<forall>st2. sessionQuestions st2 A = sessionQuestions st A \<and> random st2 = random st \<longrightarrow>
            fst (getDiverseQuestions catalog ctx cnt st2) =
              fst (getDiverseQuestions catalog ctx cnt st) \<and>
            sessionQuestions (snd (getDiverseQuestions catalog ctx cnt st2)) A =
              sessionQuestions st' A)"
proof -
  have "map originalQuestion (fst (getDiverseQuestions catalog ctx cnt st)) = map question sel"
    unfolding getDiverseQuestions_result sel_def used_def A_def by (rule personalize_all_original)
  then show ?thesis
    by (simp add: getDiverseQuestions_def Let_def case_prod_beta A_def used_def sel_def st'_def)
qed

theorem selection_frame_witness:
  "sessionQuestions example_state ''B'' = Some [1] \<and>
   sessionQuestions (snd (getDiverseQuestions example_catalog example_context 5 example_state)) ''B'' =
     Some [1] \<and>
   sessionQuestions (snd (getDiverseQuestions example_catalog example_context 5 example_state)) ''A'' =
     Some ([2] @ map cs_id (fst (selectedQuestions example_catalog example_data [2] 5 (sconst (1 / 2)))))"
  using selection_frame [where catalog = example_catalog and ctx = example_context and cnt = 5
      and st = example_state]
  by (simp add: example_context_def example_state_def)

text \<open>
  The targeted selection and \<open>clearSession\<close> keep to one entry of the session store in the
  same way.
\<close>

lemma targeted_selection_frame:
  fixes catalog byTags criteria ctx cnt st
  defines "A \<equiv> or_else (sessionId ctx) ''default''"
  defines "used \<equiv> (case sessionQuestions st A of None \<Rightarrow> [] | Some u \<Rightarrow> u)"
  defines "sel \<equiv> fst (targetedQuestions catalog byTags criteria (profileData ctx) used cnt (random st))"
  defines "st' \<equiv> snd (getTargetedQuestions catalog byTags criteria ctx cnt st)"
  shows "(\<forall>B. B \<noteq> A \<longrightarrow> sessionQuestions st' B = sessionQuestions st B) \<and>
         sessionQuestions st' A = Some (used @ map cs_id sel) \<and>
         map originalQuestion (fst (getTargetedQuestions catalog byTags criteria ctx cnt st)) =
           map question sel"
  by (simp add: getTargetedQuestions_def Let_def case_prod_beta A_def used_def sel_def st'_def
      personalize_all_original)

lemma clearSession_frame:
  "sessionQuestions (clearSession A st) A = None \<and>
   (\<forall>B. B \<noteq> A \<longrightarrow> sessionQuestions (clearSession A st) B = sessionQuestions st B) \<and>
   random (clearSession A st) = random st"
  by (simp add: clearSession_def)


text \<open>
  Claim C10. The \<open>relevanceScore\<close> of a personalized question is a call of the scorer of its
  own, on the random number that follows the greeting's coin flip, not the score the
  question was ranked by. With the generator of \<open>swap_state\<close> the two questions are ranked
  by the scores 1 and 0 and returned in that order with the scores 0 and 1: the returned
  sequence is not in descending order of its \<open>relevanceScore\<close>.
\<close>

theorem relevance_field_rescored:
  "relevanceScore (fst (personalizeQuestion q pd rnd)) =
     fst (calculateRelevanceScore q pd (if truthy (pd_name pd) then stl rnd else rnd)) \<and>
   fst (score_all pair_catalog blank_data (random swap_state)) =
     [(pair_catalog ! 0, 1), (pair_catalog ! 1, 0)] \<and>
   fst (rankQuestionsByRelevance pair_catalog blank_data (random swap_state)) = pair_catalog \<and>
   map originalQuestion (fst (getDiverseQuestions pair_catalog plain_context 4 swap_state)) =
     map question pair_catalog \<and>
   map relevanceScore (fst (getDiverseQuestions pair_catalog plain_context 4 swap_state)) =
     [0, 1] \<and>
   \<not> sorted_wrt (\<lambda>a b. b \<le> a)
       (map relevanceScore (fst (getDiverseQuestions pair_catalog plain_context 4 swap_state))) \<and>
   (\<exists>st. \<not> sorted_wrt (\<lambda>a b. b \<le> a)
       (map relevanceScore (fst (getDiverseQuestions pair_catalog plain_context 4 st))))"
proof -
  have 1: "relevanceScore (fst (personalizeQuestion q pd rnd)) =
     fst (calculateRelevanceScore q pd (if truthy (pd_name pd) then stl rnd else rnd))"
    by (simp add: personalizeQuestion_def Let_def case_prod_beta)
  have 2: "fst (score_all pair_catalog blank_data (random swap_state)) =
     [(pair_catalog ! 0, 1), (pair_catalog ! 1, 0)]"
    by (simp add: service_eval)
  have 3: "fst (rankQuestionsByRelevance pair_catalog blank_data (random swap_state)) = pair_catalog"
    by (simp add: service_eval)
  have 4: "map originalQuestion (fst (getDiverseQuestions pair_catalog plain_context 4 swap_state)) =
     map question pair_catalog"
    by (simp add: service_eval)
  have 5: "map relevanceScore (fst (getDiverseQuestions pair_catalog plain_context 4 swap_state)) =
     [0, 1]"
    by (simp add: service_eval)
  have 6: "\<not> sorted_wrt (\<lambda>a b. b \<le> a)
       (map relevanceScore (fst (getDiverseQuestions pair_catalog plain_context 4 swap_state)))"
    by (simp add: 5)
  from 6 have 7: "\<exists>st. \<not> sorted_wrt (\<lambda>a b. b \<le> a)
       (map relevanceScore (fst (getDiverseQuestions pair_catalog plain_context 4 st)))"
    by blast
  show ?thesis
    by (intro conjI; fact)
qed

theorem relevance_field_rescored_witness:
  "relevanceScore (fst (personalizeQuestion early_question no_experience_data (1 / 2 ## sconst 0))) =
     fst (calculateRelevanceScore early_question no_experience_data (1 / 2 ## sconst 0))"
  using relevance_field_rescored [where q = early_question and pd = no_experience_data
      and rnd = "1 / 2 ## sconst 0"]
  by (simp add: no_experience_data_def blank_data_def truthy_def)

subsection \<open>Fallback of the intelligent question service\<close>

lemmas iq_eval = getIntelligentQuestions_def selectAndCustomizeWithAI_def parseAIResponse_def
  fallbackQuestionSelection_def failing_host_def empty_reply_host_def keep_order_def
  example_catalog_def example_iq_profile_def determineRoleType_def determineSeniority_def
  preFilterQuestions_def jsonMatch_def get_member_def field_def iterate_def slice0_def Let_def
  truthy_def lower_includes_def toLowerCase_def toLowerCase_char_def
  basicCustomization_def or_else_def example_env_def

text \<open>
  Claim C3 as stated fails for a reply with a missing field: a reply that parses as an
  object with no \<open>questions\<close> member is not an error, and the service returns the empty list
  where the fallback returns a question.
\<close>

theorem missing_field_counterexample:
  "fst (getIntelligentQuestions empty_reply_host example_env example_catalog example_iq_profile 1
         (sconst 0)) \<noteq>
   fst (fallbackQuestionSelection empty_reply_host example_env example_catalog example_iq_profile 1
         (sconst 0))"
  by (simp add: iq_eval)

text \<open>
  Claim C3, amended. When the completion path throws because no key is configured, the
  request fails, the reply holds no braced block or \<open>JSON.parse\<close> rejects the block, the
  result is that of \<open>fallbackQuestionSelection\<close> for the same profile, count and random
  source. A reply that parses as an object without a \<open>questions\<close> member is answered by the
  empty list, with no fallback.
\<close>

theorem ai_failure_falls_back:
  fixes host env catalog profile cnt rnd
  defines "candidates \<equiv> preFilterQuestions catalog (determineRoleType (iq_title profile))
             (determineSeniority (iq_title profile) (iq_yearsOfExperience profile))"
  defines "reply \<equiv> generateContent host (createPrompt host profile candidates cnt)"
  shows "(\<not> keyConfigured host \<or> (\<exists>e. reply = Inl e) \<or>
          (\<exists>response. reply = Inr response \<and>
             (jsonMatch response = None \<or>
              (\<exists>m. jsonMatch response = Some m \<and> JSON_parse host m = None))) \<longrightarrow>
          getIntelligentQuestions host env catalog profile cnt rnd =
            fallbackQuestionSelection host env catalog profile cnt rnd) \<and>
         (keyConfigured host \<and>
          (\<exists>response m members. reply = Inr response \<and> jsonMatch response = Some m \<and>
             JSON_parse host m = Some (JObj members) \<and> map_of (rev members) ''questions'' = None) \<longrightarrow>
          getIntelligentQuestions host env catalog profile cnt rnd = ([], rnd))"
proof -
  have fails: "selectAndCustomizeWithAI host profile candidates cnt = Inl e \<Longrightarrow>
      getIntelligentQuestions host env catalog profile cnt rnd =
        fallbackQuestionSelection host env catalog profile cnt rnd" for e
    by (simp add: getIntelligentQuestions_def Let_def candidates_def)
  have 1: "getIntelligentQuestions host env catalog profile cnt rnd =
        fallbackQuestionSelection host env catalog profile cnt rnd"
    if "\<not> keyConfigured host"
    using that by (intro fails [of ApiKeyMissing]) (simp add: selectAndCustomizeWithAI_def)
  have 2: "getIntelligentQuestions host env catalog profile cnt rnd =
        fallbackQuestionSelection host env catalog profile cnt rnd"
    if "reply = Inl e" for e
  proof (cases "keyConfigured host")
    case True
    with that show ?thesis
      by (intro fails [of e]) (simp add: selectAndCustomizeWithAI_def reply_def)
  next
    case False
    then show ?thesis by (rule 1)
  qed
  have 3: "getIntelligentQuestions host env catalog profile cnt rnd =
        fallbackQuestionSelection host env catalog profile cnt rnd"
    if "reply = Inr response" "jsonMatch response = None" for response
  proof (cases "keyConfigured host")
    case True
    with that show ?thesis
      by (intro fails [of NoJsonFound])
        (simp add: selectAndCustomizeWithAI_def reply_def parseAIResponse_def)
  next
    case False
    then show ?thesis by (rule 1)
  qed
  have 4: "getIntelligentQuestions host env catalog profile cnt rnd =
        fallbackQuestionSelection host env catalog profile cnt rnd"
    if "reply = Inr response" "jsonMatch response = Some m" "JSON_parse host m = None"
    for response m
  proof (cases "keyConfigured host")
    case True
    with that show ?thesis
      by (intro fails [of JsonSyntaxError])
        (simp add: selectAndCustomizeWithAI_def reply_def parseAIResponse_def)
  next
    case False
    then show ?thesis by (rule 1)
  qed
  have 5: "getIntelligentQuestions host env catalog profile cnt rnd = ([], rnd)"
    if "keyConfigured host" "reply = Inr response" "jsonMatch response = Some m"
      "JSON_parse host m = Some (JObj members)" "map_of (rev members) ''questions'' = None"
    for response m members
    using that
    by (simp add: getIntelligentQuestions_def Let_def candidates_def [symmetric]
        selectAndCustomizeWithAI_def reply_def [symmetric] parseAIResponse_def get_member_def
        field_def iterate_def)
  from 1 2 3 4 5 show ?thesis by blast
qed

theorem ai_failure_falls_back_witness:
  "getIntelligentQuestions failing_host example_env example_catalog example_iq_profile 2 (sconst 0) =
     fallbackQuestionSelection failing_host example_env example_catalog example_iq_profile 2 (sconst 0) \<and>
   getIntelligentQuestions empty_reply_host example_env example_catalog example_iq_profile 1 (sconst 0) =
     ([], sconst 0)"
  using ai_failure_falls_back [where host = failing_host and env = example_env
      and catalog = example_catalog and profile = example_iq_profile and cnt = 2 and rnd = "sconst 0"]
    ai_failure_falls_back [where host = empty_reply_host and env = example_env
      and catalog = example_catalog and profile = example_iq_profile and cnt = 1 and rnd = "sconst 0"]
  by (simp add: failing_host_def empty_reply_host_def jsonMatch_def)

lemma fallback_example:
  "map customizedQuestion
     (fst (fallbackQuestionSelection failing_host example_env example_catalog example_iq_profile 2
            (sconst 0))) =
     [Some (JStr ''What do you enjoy most about your role as Senior Software Engineer at Acme?''),
      Some (JStr ''How did your career begin?'')]"
  by (simp add: iq_eval)

end
